theory Spec2Isabelle
  imports Main
begin

section \<open>Values, thrown errors and observable effects\<close>

text \<open>
  The connector of \<^verbatim>\<open>src/src/pages/_app.tsx\<close> (class \<^verbatim>\<open>RoninConnector\<close>) is embedded as
  functions over an explicit connector state: its private fields, the part of the global
  scope and of the persistent store it touches, and a trace of what it does to the outside
  world. Every method is embedded except \<^verbatim>\<open>getWalletClient\<close>. Event payloads are
  JavaScript values; only the shapes the connector builds are needed.
\<close>

datatype jsval =
    JUndefined
  | JBool bool
  | JNum int
  | JStr string
  | JObj "(string \<times> jsval) list"

text \<open>
  Thrown values. \<open>Error m\<close> is an error object with message \<open>m\<close> (a transport error, or
  \<^verbatim>\<open>new Error(m)\<close>); \<open>ThrownString s\<close> is a thrown string primitive, which
  \<^verbatim>\<open>switchChain\<close> tells apart by \<^verbatim>\<open>typeof error === 'string'\<close>; \<open>TypeError\<close> and
  \<open>ReferenceError\<close> are raised by the language itself. The two wrappers are the viem
  classes the connector constructs around a caught error (its cause). A thrown
  \<^verbatim>\<open>null\<close> or \<^verbatim>\<open>undefined\<close> is not modelled: the collaborators reject with error
  objects.
\<close>

datatype js_error =
    Error string
  | ThrownString string
  | TypeError string
  | ReferenceError string
  | UserRejectedRequestError js_error
  | SwitchChainError js_error

record currency =
  currency_name :: string
  symbol :: string
  decimals :: nat

text \<open>A configured chain: \<^verbatim>\<open>id\<close>, \<^verbatim>\<open>name\<close>, \<^verbatim>\<open>nativeCurrency\<close>,
  \<^verbatim>\<open>rpcUrls.default.http\<close> and \<^verbatim>\<open>blockExplorers?.default?.url\<close>.\<close>

record chain =
  chain_id :: int
  chain_name :: string
  nativeCurrency :: currency
  rpc_http :: "string list"
  explorer_url :: "string option"

record add_chain_params =
  param_chainId :: string
  blockExplorerUrls :: "string list"
  chainName :: string
  param_nativeCurrency :: currency
  rpcUrls :: "string list"

datatype rpc_request =
    Eth_requestAccounts
  | Eth_accounts
  | Eth_chainId
  | Wallet_addEthereumChain add_chain_params
  | Wallet_switchEthereumChain string

record init_args =
  showQrModal :: bool
  init_projectId :: string
  init_chains :: "int list"
  optionalChains :: "int list option"
  rpcMap :: "(int \<times> string option) list"
  init_metadata :: "string option"
  init_relayUrl :: "string option"

text \<open>
  What \<^verbatim>\<open>getProvider\<close> hands back: the injected object \<^verbatim>\<open>window.ronin.provider\<close>, the
  relay provider held in \<^verbatim>\<open>this.#provider\<close>, or \<^verbatim>\<open>undefined\<close> (the non-null assertion
  \<^verbatim>\<open>this.#provider!\<close> checks nothing at run time).
\<close>

datatype provider_ref = InjectedProvider | RelayProvider | NoProvider

text \<open>Everything the connector does to the outside world is appended to a trace.\<close>

datatype effect =
    Emit string jsval
  | Request provider_ref rpc_request
  | WindowOpen string string string
  | DynamicImport
  | EthereumProviderInit init_args
  | ProviderConnect
  | ProviderEnable
  | ProviderDisconnect

datatype handler = OnAccountsChanged | OnChainChanged | OnDisconnect | OnDisplayUri | OnConnect

type_synonym listener_list = "(string \<times> handler) list"

record namespace =
  ns_chains :: "string list option"
  ns_methods :: "string list option"

text \<open>A relay session; its namespaces are kept in the form \<^verbatim>\<open>normalizeNamespaces\<close> returns.\<close>

record wc_session =
  namespaces :: "(string \<times> namespace) list option"

record relay =
  session :: "wc_session option"
  accounts :: "string list"
  relay_chainId :: int

text \<open>
  The injected object \<^verbatim>\<open>window.ronin\<close>: whether its provider has an \<^verbatim>\<open>on\<close> method, and
  the listeners registered on \<^verbatim>\<open>roninEvent\<close>.
\<close>

record injected =
  provider_on :: bool
  roninEvent :: listener_list

record window_obj =
  ronin :: "injected option"

text \<open>
  The promise stored in \<^verbatim>\<open>#initProviderPromise\<close> is the run of \<^verbatim>\<open>#initProvider\<close>: it is
  waiting for the dynamic import, or for \<^verbatim>\<open>EthereumProvider.init\<close>, or it is settled.
\<close>

datatype promise = Importing | Initializing init_args | Fulfilled | Rejected js_error

text \<open>
  The connector reads and writes two keys of the persistent store. It only ever stores
  \<^verbatim>\<open>true\<close> under the shim key, so that entry is its presence.
\<close>

record kv_store =
  shimDisconnect_item :: bool
  requestedChains_item :: "int list option"

record conn_state =
  window :: "window_obj option"
  isExtension :: bool
  provider :: "relay option"
  provider_listeners :: listener_list
  initProviderPromise :: "promise option"
  storage :: "kv_store option"
  trace :: "effect list"

record roninOptions =
  projectId :: string
  metadata :: "string option"
  relayUrl :: "string option"
  shimDisconnect :: bool

text \<open>
  The connector's configuration and the behaviour of its collaborators, none of which is in
  the repository: the dynamic import and \<^verbatim>\<open>EthereumProvider.init\<close>, the relay provider's
  \<^verbatim>\<open>connect\<close>, \<^verbatim>\<open>enable\<close> and \<^verbatim>\<open>disconnect\<close>, the answers to RPC requests (the chain id
  as \<^verbatim>\<open>Number\<close> reads it), viem's \<^verbatim>\<open>getAddress\<close> and \<^verbatim>\<open>numberToHex\<close>, \<^verbatim>\<open>parseInt\<close>
  (\<open>None\<close> is NaN), the message text viem gives its error classes, \<^verbatim>\<open>isMobile()\<close>,
  and whether a read of the persistent store throws.
\<close>

record world =
  chains_cfg :: "chain list"
  options :: roninOptions
  mobile :: bool
  import_failure :: "js_error option"
  EthereumProvider_init :: "init_args \<Rightarrow> js_error + relay"
  relay_connect :: "relay \<Rightarrow> js_error + relay"
  relay_enable :: "relay \<Rightarrow> js_error + string list \<times> relay"
  relay_disconnect :: "relay \<Rightarrow> js_error + relay"
  rpc_accounts :: "provider_ref \<Rightarrow> rpc_request \<Rightarrow> js_error + string list"
  rpc_chainId :: "provider_ref \<Rightarrow> js_error + int"
  rpc_wallet :: "provider_ref \<Rightarrow> rpc_request \<Rightarrow> js_error option"
  getAddress :: "string option \<Rightarrow> js_error + string"
  numberToHex :: "int \<Rightarrow> js_error + string"
  parseInt :: "string \<Rightarrow> int option"
  viem_message :: "js_error \<Rightarrow> string"
  storage_getItem_failure :: "js_error option"

section \<open>Asynchronous methods as state passing with exceptions\<close>

text \<open>
  An \<^verbatim>\<open>async\<close> method is a function from the state to a result and the new state; a
  rejection is \<open>Inl\<close>. Awaiting is sequencing: the event loop is single-threaded and the
  methods are run one at a time, each to completion.
\<close>

type_synonym 'a io = "conn_state \<Rightarrow> (js_error + 'a) \<times> conn_state"

definition io_return :: "'a \<Rightarrow> 'a io" where
  "io_return x = (\<lambda>s. (Inr x, s))"

definition io_throw :: "js_error \<Rightarrow> 'a io" where
  "io_throw e = (\<lambda>s. (Inl e, s))"

definition io_bind :: "'a io \<Rightarrow> ('a \<Rightarrow> 'b io) \<Rightarrow> 'b io" where
  "io_bind m f = (\<lambda>s. case m s of (Inl e, s') \<Rightarrow> (Inl e, s') | (Inr x, s') \<Rightarrow> f x s')"

definition io_seq :: "'a io \<Rightarrow> 'b io \<Rightarrow> 'b io" where
  "io_seq m k = io_bind m (\<lambda>_. k)"

definition io_when :: "bool \<Rightarrow> unit io \<Rightarrow> unit io" where
  "io_when b m = (if b then m else io_return ())"

definition io_get :: "(conn_state \<Rightarrow> 'a) \<Rightarrow> 'a io" where
  "io_get f = (\<lambda>s. (Inr (f s), s))"

definition io_modify :: "(conn_state \<Rightarrow> conn_state) \<Rightarrow> unit io" where
  "io_modify f = (\<lambda>s. (Inr (), f s))"

definition external :: "js_error + 'a \<Rightarrow> 'a io" where
  "external r = (\<lambda>s. (r, s))"

text \<open>\<^verbatim>\<open>try { m } catch (error) { h error }\<close>\<close>

definition try_catch :: "'a io \<Rightarrow> (js_error \<Rightarrow> 'a io) \<Rightarrow> 'a io" where
  "try_catch m h = (\<lambda>s. case m s of (Inl e, s') \<Rightarrow> h e s' | (Inr x, s') \<Rightarrow> (Inr x, s'))"

text \<open>
  \<^verbatim>\<open>try { m } finally { f }\<close>: \<open>f\<close> runs however \<open>m\<close> completes (also on a
  \<^verbatim>\<open>return\<close> inside it); the completion of \<open>m\<close> stands unless \<open>f\<close> throws.
\<close>

definition try_finally :: "'a io \<Rightarrow> unit io \<Rightarrow> 'a io" where
  "try_finally m f =
     (\<lambda>s. case m s of (r, s') \<Rightarrow>
        (case f s' of (Inl e, s'') \<Rightarrow> (Inl e, s'') | (Inr _, s'') \<Rightarrow> (r, s'')))"

definition effect_log :: "effect \<Rightarrow> unit io" where
  "effect_log e = io_modify (\<lambda>s. s\<lparr>trace := trace s @ [e]\<rparr>)"

text \<open>\<^verbatim>\<open>this.emit(event, payload)\<close> of the connector base class. Emitting, and the
  writes to \<^verbatim>\<open>this.storage\<close> below, are taken not to throw; a read of the store may.\<close>

definition emit :: "string \<Rightarrow> jsval \<Rightarrow> unit io" where
  "emit ev payload = effect_log (Emit ev payload)"

section \<open>Error messages and the case-insensitive tests\<close>

text \<open>\<^verbatim>\<open>error.message\<close>; \<open>None\<close> is \<^verbatim>\<open>undefined\<close>, the message of a string primitive.\<close>

fun message :: "world \<Rightarrow> js_error \<Rightarrow> string option" where
  "message w (Error m) = Some m"
| "message w (ThrownString s) = None"
| "message w (TypeError m) = Some m"
| "message w (ReferenceError m) = Some m"
| "message w (UserRejectedRequestError c) = Some (viem_message w (UserRejectedRequestError c))"
| "message w (SwitchChainError c) = Some (viem_message w (SwitchChainError c))"

definition lower_ascii :: "char \<Rightarrow> char" where
  "lower_ascii c =
     (case map_of (zip ''ABCDEFGHIJKLMNOPQRSTUVWXYZ'' ''abcdefghijklmnopqrstuvwxyz'') c of
        Some l \<Rightarrow> l
      | None \<Rightarrow> c)"

text \<open>
  \<^verbatim>\<open>/pat/i.test(s)\<close> for a pattern of literal characters: \<open>pat\<close> occurs somewhere in
  \<open>s\<close>, letters compared without case. (Without the \<^verbatim>\<open>u\<close> flag a character outside
  ASCII never matches an ASCII letter.)
\<close>

fun starts_with :: "string \<Rightarrow> string \<Rightarrow> bool" where
  "starts_with [] s = True"
| "starts_with (p # ps) [] = False"
| "starts_with (p # ps) (c # cs) = (p = c \<and> starts_with ps cs)"

fun occurs_in :: "string \<Rightarrow> string \<Rightarrow> bool" where
  "occurs_in p [] = (p = [])"
| "occurs_in p (c # cs) = (starts_with p (c # cs) \<or> occurs_in p cs)"

text \<open>\<^verbatim>\<open>test\<close> turns its argument into a string first: \<^verbatim>\<open>undefined\<close> is tested as that word.\<close>

definition regex_test_ci :: "string \<Rightarrow> string option \<Rightarrow> bool" where
  "regex_test_ci pat m =
     occurs_in (map lower_ascii pat)
       (map lower_ascii (case m of None \<Rightarrow> ''undefined'' | Some t \<Rightarrow> t))"

section \<open>Listeners and storage\<close>

text \<open>
  The relay provider is an event emitter: \<^verbatim>\<open>on\<close> appends a registration and
  \<^verbatim>\<open>removeListener\<close> takes away the most recent one that matches. \<^verbatim>\<open>roninEvent\<close> is an
  event target: a listener is registered at most once.
\<close>

definition emitter_on :: "string \<Rightarrow> handler \<Rightarrow> listener_list \<Rightarrow> listener_list" where
  "emitter_on ev h ls = ls @ [(ev, h)]"

definition emitter_removeListener :: "string \<Rightarrow> handler \<Rightarrow> listener_list \<Rightarrow> listener_list" where
  "emitter_removeListener ev h ls = rev (remove1 (ev, h) (rev ls))"

definition addEventListener :: "string \<Rightarrow> handler \<Rightarrow> listener_list \<Rightarrow> listener_list" where
  "addEventListener ev h ls = (if (ev, h) \<in> set ls then ls else ls @ [(ev, h)])"

definition removeEventListener :: "string \<Rightarrow> handler \<Rightarrow> listener_list \<Rightarrow> listener_list" where
  "removeEventListener ev h ls = removeAll (ev, h) ls"

text \<open>Observations on a state: a listener registered on \<^verbatim>\<open>window.ronin.roninEvent\<close>, and
  the three registrations \<^verbatim>\<open>connect\<close> makes there.\<close>

definition native_registered :: "conn_state \<Rightarrow> string \<times> handler \<Rightarrow> bool" where
  "native_registered s x =
     (case window s of
        None \<Rightarrow> False
      | Some wo \<Rightarrow> (case ronin wo of None \<Rightarrow> False | Some ro \<Rightarrow> x \<in> set (roninEvent ro)))"

definition native_listeners :: listener_list where
  "native_listeners =
     [(''accountsChanged'', OnAccountsChanged),
      (''chainChanged'', OnChainChanged),
      (''disconnect'', OnDisconnect)]"

definition NAMESPACE :: string where
  "NAMESPACE = ''eip155''"

definition ADD_ETH_CHAIN_METHOD :: string where
  "ADD_ETH_CHAIN_METHOD = ''wallet_addEthereumChain''"

text \<open>\<^verbatim>\<open>this.storage?.setItem(REQUESTED_CHAINS_KEY, chains)\<close>\<close>

definition setRequestedChainsIds :: "int list \<Rightarrow> unit io" where
  "setRequestedChainsIds cs =
     io_modify (\<lambda>s. s\<lparr>storage := map_option (\<lambda>st. st\<lparr>requestedChains_item := Some cs\<rparr>) (storage s)\<rparr>)"

text \<open>
  \<^verbatim>\<open>this.storage?.getItem(key)\<close> as the methods call it: \<^verbatim>\<open>undefined\<close> (\<open>None\<close>)
  without a store; with one, the read throws when the collaborator says so and yields the
  entry otherwise.
\<close>

definition storage_getItem :: "world \<Rightarrow> (kv_store \<Rightarrow> 'a) \<Rightarrow> 'a option io" where
  "storage_getItem w entry =
     (\<lambda>s. case storage s of
        None \<Rightarrow> (Inr None, s)
      | Some st \<Rightarrow>
          (case storage_getItem_failure w of
             Some e \<Rightarrow> (Inl e, s)
           | None \<Rightarrow> (Inr (Some (entry st)), s)))"

text \<open>\<^verbatim>\<open>#getRequestedChainsIds()\<close>:
  \<^verbatim>\<open>this.storage?.getItem(REQUESTED_CHAINS_KEY) ?? []\<close>\<close>

definition readRequestedChainsIds :: "world \<Rightarrow> int list io" where
  "readRequestedChainsIds w =
     io_bind (storage_getItem w requestedChains_item) (\<lambda>v.
       io_return (case v of Some (Some cs) \<Rightarrow> cs | _ \<Rightarrow> []))"

text \<open>What the record holds, read off a state.\<close>

definition getRequestedChainsIds :: "conn_state \<Rightarrow> int list" where
  "getRequestedChainsIds s =
     (case storage s of
        None \<Rightarrow> []
      | Some st \<Rightarrow> (case requestedChains_item st of None \<Rightarrow> [] | Some cs \<Rightarrow> cs))"

text \<open>The six registrations of \<^verbatim>\<open>#setupListeners\<close> and \<^verbatim>\<open>#removeListeners\<close>, in order.\<close>

definition connector_listeners :: listener_list where
  "connector_listeners =
     [(''accountsChanged'', OnAccountsChanged),
      (''chainChanged'', OnChainChanged),
      (''disconnect'', OnDisconnect),
      (''session_delete'', OnDisconnect),
      (''display_uri'', OnDisplayUri),
      (''connect'', OnConnect)]"

definition removeListeners :: "unit io" where
  "removeListeners =
     (\<lambda>s. if provider s = None then (Inr (), s)
          else (Inr (), s\<lparr>provider_listeners :=
                  fold (\<lambda>(ev, h). emitter_removeListener ev h) connector_listeners (provider_listeners s)\<rparr>))"

definition setupListeners :: "unit io" where
  "setupListeners =
     (\<lambda>s. if provider s = None then (Inr (), s)
          else io_seq removeListeners
                 (io_modify (\<lambda>s'. s'\<lparr>provider_listeners :=
                    fold (\<lambda>(ev, h). emitter_on ev h) connector_listeners (provider_listeners s')\<rparr>)) s)"

text \<open>\<^verbatim>\<open>chain.split(':')[1] || ''\<close>\<close>

definition split_second :: "string \<Rightarrow> string" where
  "split_second c = takeWhile (\<lambda>x. x \<noteq> CHR '':'') (drop 1 (dropWhile (\<lambda>x. x \<noteq> CHR '':'') c))"

definition getNamespaceChainsIds :: "world \<Rightarrow> conn_state \<Rightarrow> int option list" where
  "getNamespaceChainsIds w s =
     (case provider s of
        None \<Rightarrow> []
      | Some p \<Rightarrow>
          (case session p of
             None \<Rightarrow> []
           | Some se \<Rightarrow>
               (case namespaces se of
                  None \<Rightarrow> []
                | Some ns \<Rightarrow>
                    (case map_of ns NAMESPACE of
                       None \<Rightarrow> []
                     | Some n \<Rightarrow>
                         (case ns_chains n of
                            None \<Rightarrow> []
                          | Some cs \<Rightarrow> map (\<lambda>c. parseInt w (split_second c)) cs)))))"

definition getNamespaceMethods :: "conn_state \<Rightarrow> string list" where
  "getNamespaceMethods s =
     (case provider s of
        None \<Rightarrow> []
      | Some p \<Rightarrow>
          (case session p of
             None \<Rightarrow> []
           | Some se \<Rightarrow>
               (case namespaces se of
                  None \<Rightarrow> []
                | Some ns \<Rightarrow>
                    (case map_of ns NAMESPACE of
                       None \<Rightarrow> []
                     | Some n \<Rightarrow> (case ns_methods n of None \<Rightarrow> [] | Some ms \<Rightarrow> ms)))))"

text \<open>The shim entry: \<^verbatim>\<open>setItem(shimDisconnectKey, true)\<close> and \<^verbatim>\<open>removeItem\<close>, each
  through \<^verbatim>\<open>this.storage?.\<close>. \<open>storage_getShim\<close> is no call of the program: it says
  whether a state holds the flag; the read that \<^verbatim>\<open>isAuthorized\<close> performs is
  \<open>storage_getItem\<close>, which can throw.\<close>

definition storage_setShim :: "unit io" where
  "storage_setShim =
     io_modify (\<lambda>s. s\<lparr>storage := map_option (\<lambda>st. st\<lparr>shimDisconnect_item := True\<rparr>) (storage s)\<rparr>)"

definition storage_removeShim :: "unit io" where
  "storage_removeShim =
     io_modify (\<lambda>s. s\<lparr>storage := map_option (\<lambda>st. st\<lparr>shimDisconnect_item := False\<rparr>) (storage s)\<rparr>)"

definition storage_getShim :: "conn_state \<Rightarrow> bool" where
  "storage_getShim s = (case storage s of None \<Rightarrow> False | Some st \<Rightarrow> shimDisconnect_item st)"

text \<open>\<^verbatim>\<open>window.ronin?.roninEvent\<close>: a change of its listeners when the object is there.\<close>

definition roninEvent_listeners :: "(listener_list \<Rightarrow> listener_list) \<Rightarrow> unit io" where
  "roninEvent_listeners f =
     (\<lambda>s. case window s of
        None \<Rightarrow> (Inl (ReferenceError ''window is not defined''), s)
      | Some wo \<Rightarrow>
          (case ronin wo of
             None \<Rightarrow> (Inr (), s)
           | Some r \<Rightarrow>
               (Inr (), s\<lparr>window := Some (wo\<lparr>ronin := Some (r\<lparr>roninEvent := f (roninEvent r)\<rparr>)\<rparr>)\<rparr>)))"

section \<open>Calls on a provider\<close>

text \<open>
  \<^verbatim>\<open>provider.request(...)\<close>. The call is logged and the collaborator answers; on
  \<^verbatim>\<open>undefined\<close> the member access throws. The two functions differ in the type of the
  answer only.
\<close>

definition request_accounts :: "world \<Rightarrow> provider_ref \<Rightarrow> rpc_request \<Rightarrow> string list io" where
  "request_accounts w p req =
     (case p of
        NoProvider \<Rightarrow> io_throw (TypeError ''Cannot read properties of undefined'')
      | _ \<Rightarrow> io_seq (effect_log (Request p req)) (external (rpc_accounts w p req)))"

definition request_chainId :: "world \<Rightarrow> provider_ref \<Rightarrow> int io" where
  "request_chainId w p =
     (case p of
        NoProvider \<Rightarrow> io_throw (TypeError ''Cannot read properties of undefined'')
      | _ \<Rightarrow> io_seq (effect_log (Request p Eth_chainId)) (external (rpc_chainId w p)))"

text \<open>
  A request whose result is not used. The member access \<^verbatim>\<open>provider.request\<close> comes
  before the arguments are evaluated: on \<^verbatim>\<open>undefined\<close> it throws first; otherwise the
  parameters are built, which throws when \<^verbatim>\<open>numberToHex\<close> does.
\<close>

definition request_wallet :: "world \<Rightarrow> provider_ref \<Rightarrow> js_error + rpc_request \<Rightarrow> unit io" where
  "request_wallet w p params =
     (case p of
        NoProvider \<Rightarrow> io_throw (TypeError ''Cannot read properties of undefined'')
      | _ \<Rightarrow>
          io_bind (external params) (\<lambda>req.
          io_seq (effect_log (Request p req))
                 (external (case rpc_wallet w p req of Some e \<Rightarrow> Inl e | None \<Rightarrow> Inr ()))))"

text \<open>
  A member of \<^verbatim>\<open>provider as WalletConnectProvider\<close>. The cast checks nothing: on the
  injected object, which has the EIP-1193 members only, a relay member reads as
  \<^verbatim>\<open>undefined\<close> (\<open>None\<close>) and calling it throws; on \<^verbatim>\<open>undefined\<close> the access itself throws.
\<close>

definition relay_member :: "provider_ref \<Rightarrow> (relay \<Rightarrow> 'a) \<Rightarrow> 'a option io" where
  "relay_member p f =
     (\<lambda>s. case p of
        NoProvider \<Rightarrow> (Inl (TypeError ''Cannot read properties of undefined''), s)
      | InjectedProvider \<Rightarrow> (Inr None, s)
      | RelayProvider \<Rightarrow>
          (case provider s of
             None \<Rightarrow> (Inl (TypeError ''Cannot read properties of undefined''), s)
           | Some r \<Rightarrow> (Inr (Some (f r)), s)))"

definition relay_call :: "provider_ref \<Rightarrow> effect \<Rightarrow> (relay \<Rightarrow> js_error + 'a \<times> relay) \<Rightarrow> 'a io" where
  "relay_call p eff f =
     (\<lambda>s. case p of
        NoProvider \<Rightarrow> (Inl (TypeError ''Cannot read properties of undefined''), s)
      | InjectedProvider \<Rightarrow> (Inl (TypeError ''provider method is not a function''), s)
      | RelayProvider \<Rightarrow>
          (case provider s of
             None \<Rightarrow> (Inl (TypeError ''Cannot read properties of undefined''), s)
           | Some r \<Rightarrow>
               (case f r of
                  Inl e \<Rightarrow> (Inl e, s\<lparr>trace := trace s @ [eff]\<rparr>)
                | Inr (x, r') \<Rightarrow> (Inr x, s\<lparr>provider := Some r', trace := trace s @ [eff]\<rparr>))))"

text \<open>\<^verbatim>\<open>accounts[0]\<close>\<close>

definition first :: "'a list \<Rightarrow> 'a option" where
  "first xs = (case xs of [] \<Rightarrow> None | x # _ \<Rightarrow> Some x)"

section \<open>Relay provider initialisation\<close>

text \<open>
  \<^verbatim>\<open>#createProvider\<close> up to its return: when no promise is stored and \<^verbatim>\<open>window\<close> is
  defined it calls \<^verbatim>\<open>#initProvider\<close>, which runs to its first \<^verbatim>\<open>await\<close> (the dynamic
  import is requested), and stores the promise. It returns the stored promise
  (\<open>None\<close> is \<^verbatim>\<open>undefined\<close>); there is one slot, so the promise is known by its state.
\<close>

definition createProvider_call :: "promise option io" where
  "createProvider_call =
     (\<lambda>s. if initProviderPromise s = None \<and> window s \<noteq> None
          then (Inr (Some Importing),
                s\<lparr>initProviderPromise := Some Importing, trace := trace s @ [DynamicImport]\<rparr>)
          else (Inr (initProviderPromise s), s))"

definition provider_init_args :: "world \<Rightarrow> int \<Rightarrow> int list \<Rightarrow> init_args" where
  "provider_init_args w defaultChain optional =
     \<lparr>showQrModal = False,
      init_projectId = projectId (options w),
      init_chains = [defaultChain],
      optionalChains = (if optional \<noteq> [] then Some optional else None),
      rpcMap = map (\<lambda>c. (chain_id c, first (rpc_http c))) (chains_cfg w),
      init_metadata = metadata (options w),
      init_relayUrl = relayUrl (options w)\<rparr>"

text \<open>
  The rest of \<^verbatim>\<open>#initProvider\<close>, in the two steps the event loop runs it: when the import
  has settled, and when \<^verbatim>\<open>EthereumProvider.init\<close> has settled.
\<close>

definition initProvider_imported :: "world \<Rightarrow> conn_state \<Rightarrow> conn_state" where
  "initProvider_imported w s =
     (if initProviderPromise s \<noteq> Some Importing then s
      else case import_failure w of
        Some e \<Rightarrow> s\<lparr>initProviderPromise := Some (Rejected e)\<rparr>
      | None \<Rightarrow>
          (case map chain_id (chains_cfg w) of
             [] \<Rightarrow> s\<lparr>initProviderPromise := Some Fulfilled\<rparr>
           | defaultChain # optional \<Rightarrow>
               if defaultChain \<noteq> 0
               then s\<lparr>initProviderPromise := Some (Initializing (provider_init_args w defaultChain optional)),
                      trace := trace s @ [EthereumProviderInit (provider_init_args w defaultChain optional)]\<rparr>
               else s\<lparr>initProviderPromise := Some Fulfilled\<rparr>))"

definition initProvider_initialized :: "world \<Rightarrow> conn_state \<Rightarrow> conn_state" where
  "initProvider_initialized w s =
     (case initProviderPromise s of
        Some (Initializing args) \<Rightarrow>
          (case EthereumProvider_init w args of
             Inl e \<Rightarrow> s\<lparr>initProviderPromise := Some (Rejected e)\<rparr>
           | Inr r \<Rightarrow> s\<lparr>provider := Some r, initProviderPromise := Some Fulfilled\<rparr>)
      | _ \<Rightarrow> s)"

text \<open>Awaiting the stored promise: its pending steps run, then it returns or throws.\<close>

definition await_initProvider :: "world \<Rightarrow> unit io" where
  "await_initProvider w =
     (\<lambda>s. let s' = initProvider_initialized w (initProvider_imported w s)
          in case initProviderPromise s' of
               Some (Rejected e) \<Rightarrow> (Inl e, s')
             | _ \<Rightarrow> (Inr (), s'))"

text \<open>\<^verbatim>\<open>await this.#createProvider()\<close>\<close>

definition createProvider :: "world \<Rightarrow> unit io" where
  "createProvider w = io_seq createProvider_call (await_initProvider w)"

text \<open>
  The constructor: the field initialiser of \<^verbatim>\<open>#isExtension\<close>, then
  \<^verbatim>\<open>if(!this.#isExtension) this.#createProvider()\<close>, whose promise is not awaited.
  \<open>options w\<close> is the option record after \<^verbatim>\<open>{ shimDisconnect: true, ...config.options }\<close>.
\<close>

definition constructor :: "world \<Rightarrow> window_obj option \<Rightarrow> kv_store option \<Rightarrow> conn_state" where
  "constructor w win st =
     (let s0 = \<lparr>window = win,
                isExtension = (case win of None \<Rightarrow> False | Some wo \<Rightarrow> ronin wo \<noteq> None),
                provider = None,
                provider_listeners = [],
                initProviderPromise = None,
                storage = st,
                trace = []\<rparr>
      in if \<not> isExtension s0 then snd (createProvider_call s0) else s0)"

section \<open>Provider acquisition and chain switching\<close>

text \<open>
  \<^verbatim>\<open>getProvider\<close> calls \<^verbatim>\<open>switchChain\<close>, which calls \<^verbatim>\<open>getProvider()\<close> without a chain id.
  The body of \<^verbatim>\<open>getProvider\<close> is written once, with the call \<^verbatim>\<open>this.switchChain\<close> as its
  first argument. \<^verbatim>\<open>if (chainId)\<close> holds for a number that is given and not zero.
\<close>

definition getProvider_with :: "(int \<Rightarrow> unit io) \<Rightarrow> world \<Rightarrow> int option \<Rightarrow> provider_ref io" where
  "getProvider_with switch w chainId =
     (\<lambda>s. case window s of
        None \<Rightarrow> (Inl (ReferenceError ''window is not defined''), s)
      | Some wo \<Rightarrow>
          (case ronin wo of
             Some r \<Rightarrow>
               if provider_on r then (Inr InjectedProvider, s)
               else (Inr InjectedProvider,
                     s\<lparr>window := Some (wo\<lparr>ronin := Some (r\<lparr>provider_on := True\<rparr>)\<rparr>),
                       isExtension := True\<rparr>)
           | None \<Rightarrow>
               io_seq (io_modify (\<lambda>s'. s'\<lparr>isExtension := False\<rparr>))
              (io_seq (io_bind (io_get provider) (\<lambda>p. io_when (p = None) (createProvider w)))
              (io_seq (case chainId of None \<Rightarrow> io_return () | Some c \<Rightarrow> io_when (c \<noteq> 0) (switch c))
                      (io_get (\<lambda>s'. case provider s' of None \<Rightarrow> NoProvider | Some _ \<Rightarrow> RelayProvider)))) s))"

text \<open>\<^verbatim>\<open>this.getProvider()\<close>, as \<^verbatim>\<open>switchChain\<close> calls it.\<close>

definition getProvider_plain :: "world \<Rightarrow> provider_ref io" where
  "getProvider_plain w = getProvider_with (\<lambda>_. io_return ()) w None"

text \<open>The \<^verbatim>\<open>try\<close> block of \<^verbatim>\<open>switchChain\<close>, for the chain that was found.\<close>

definition switchChain_body :: "world \<Rightarrow> int \<Rightarrow> chain \<Rightarrow> chain io" where
  "switchChain_body w chainId ch =
     io_bind (getProvider_plain w) (\<lambda>prov.
     io_bind (io_get (getNamespaceChainsIds w)) (\<lambda>namespaceChains.
     io_bind (io_get getNamespaceMethods) (\<lambda>namespaceMethods.
     io_seq (io_when (Some chainId \<notin> set namespaceChains
                       \<and> ADD_ETH_CHAIN_METHOD \<in> set namespaceMethods)
               (io_seq (request_wallet w prov
                          (case numberToHex w (chain_id ch) of
                             Inl e \<Rightarrow> Inl e
                           | Inr hex \<Rightarrow>
                               Inr (Wallet_addEthereumChain
                                      \<lparr>param_chainId = hex,
                                       blockExplorerUrls =
                                         [case explorer_url ch of None \<Rightarrow> [] | Some u \<Rightarrow> u],
                                       chainName = chain_name ch,
                                       param_nativeCurrency = nativeCurrency ch,
                                       rpcUrls = rpc_http ch\<rparr>)))
               (io_bind (readRequestedChainsIds w) (\<lambda>requestedChains.
                setRequestedChainsIds (requestedChains @ [chainId])))))
    (io_seq (request_wallet w prov
               (case numberToHex w chainId of
                  Inl e \<Rightarrow> Inl e
                | Inr hex \<Rightarrow> Inr (Wallet_switchEthereumChain hex)))
            (io_return ch)))))"

text \<open>\<^verbatim>\<open>typeof error === 'string' ? error : error?.message\<close>\<close>

definition thrown_text :: "world \<Rightarrow> js_error \<Rightarrow> string option" where
  "thrown_text w error = (case error of ThrownString str \<Rightarrow> Some str | _ \<Rightarrow> message w error)"

definition switchChain :: "world \<Rightarrow> int \<Rightarrow> chain io" where
  "switchChain w chainId =
     (case find (\<lambda>c. chain_id c = chainId) (chains_cfg w) of
        None \<Rightarrow> io_throw (SwitchChainError (Error ''chain not found on connector.''))
      | Some ch \<Rightarrow>
          try_catch (switchChain_body w chainId ch)
            (\<lambda>error.
               if regex_test_ci ''user rejected request'' (thrown_text w error)
               then io_throw (UserRejectedRequestError error)
               else io_throw (SwitchChainError error)))"

definition getProvider :: "world \<Rightarrow> int option \<Rightarrow> provider_ref io" where
  "getProvider w chainId = getProvider_with (\<lambda>c. io_seq (switchChain w c) (io_return ())) w chainId"

section \<open>Identity queries\<close>

definition getAccount :: "world \<Rightarrow> string io" where
  "getAccount w =
     io_bind (getProvider w None) (\<lambda>prov.
     io_bind (io_get isExtension) (\<lambda>ext.
       if \<not> ext then
         io_bind (relay_member prov accounts) (\<lambda>accs.
           case accs of
             None \<Rightarrow> io_throw (TypeError ''Cannot read properties of undefined'')
           | Some as \<Rightarrow> external (getAddress w (first as)))
       else
         io_bind (request_accounts w prov Eth_accounts) (\<lambda>as.
           external (getAddress w (first as)))))"

text \<open>The chain id; \<open>None\<close> is \<^verbatim>\<open>undefined\<close>, read from an object without that member.\<close>

definition getChainId :: "world \<Rightarrow> int option io" where
  "getChainId w =
     io_bind (getProvider w None) (\<lambda>prov.
     io_bind (io_get isExtension) (\<lambda>ext.
       if \<not> ext then relay_member prov relay_chainId
       else io_bind (request_chainId w prov) (\<lambda>c. io_return (Some c))))"

text \<open>
  Modelled from the spec: \<^verbatim>\<open>isChainUnsupported\<close> belongs to the connector base class of
  the wagmi library, which is not in the repository; \<open>unsupported\<close> is true iff the chain
  id is not in the host's configured chain list.
\<close>

definition isChainUnsupported :: "world \<Rightarrow> int option \<Rightarrow> bool" where
  "isChainUnsupported w i =
     (case i of None \<Rightarrow> True | Some n \<Rightarrow> \<not> list_ex (\<lambda>c. chain_id c = n) (chains_cfg w))"

section \<open>Connect, disconnect, authorisation\<close>

record connect_result =
  account :: string
  result_chain_id :: "int option"
  unsupported :: bool

definition js_chain_id :: "int option \<Rightarrow> jsval" where
  "js_chain_id i = (case i of None \<Rightarrow> JUndefined | Some n \<Rightarrow> JNum n)"

text \<open>The \<^verbatim>\<open>try\<close> block of \<^verbatim>\<open>connect\<close>.\<close>

definition connect_body :: "world \<Rightarrow> connect_result io" where
  "connect_body w =
     io_bind (getProvider w None) (\<lambda>prov.
     io_bind (io_get isExtension) (\<lambda>ext.
       if ext then
         io_seq (roninEvent_listeners (addEventListener ''accountsChanged'' OnAccountsChanged))
        (io_seq (roninEvent_listeners (addEventListener ''chainChanged'' OnChainChanged))
        (io_seq (roninEvent_listeners (addEventListener ''disconnect'' OnDisconnect))
        (io_seq (emit ''message'' (JObj [(''type'', JStr ''connecting'')]))
        (io_bind (request_accounts w prov Eth_requestAccounts) (\<lambda>accs.
         io_bind (external (getAddress w (first accs))) (\<lambda>acc.
         io_bind (getChainId w) (\<lambda>i.
         io_seq (io_when (shimDisconnect (options w)) storage_setShim)
        (io_seq (emit ''connect''
                   (JObj [(''account'', JStr acc),
                          (''chain'', JObj [(''id'', js_chain_id i),
                                            (''unsupported'', JBool (isChainUnsupported w i))])]))
                (io_return \<lparr>account = acc, result_chain_id = i,
                             unsupported = isChainUnsupported w i\<rparr>)))))))))
       else
         io_seq setupListeners
        (io_bind (relay_member prov session) (\<lambda>se.
         io_seq (io_when (case se of Some (Some _) \<Rightarrow> False | _ \<Rightarrow> True)
                   (io_seq (emit ''message'' (JObj [(''type'', JStr ''connecting'')]))
                   (io_seq (relay_call prov ProviderConnect
                              (\<lambda>r. case relay_connect w r of Inl e \<Rightarrow> Inl e | Inr r' \<Rightarrow> Inr ((), r')))
                           (setRequestedChainsIds (map chain_id (chains_cfg w))))))
        (io_bind (relay_call prov ProviderEnable (relay_enable w)) (\<lambda>accs.
         io_bind (external (getAddress w (first accs))) (\<lambda>acc.
         io_bind (getChainId w) (\<lambda>i.
         io_return \<lparr>account = acc, result_chain_id = i,
                     unsupported = isChainUnsupported w i\<rparr>))))))))"

definition connect :: "world \<Rightarrow> connect_result io" where
  "connect w =
     try_catch (connect_body w)
       (\<lambda>error.
          if regex_test_ci ''user rejected'' (message w error)
          then io_throw (UserRejectedRequestError error)
          else io_throw error)"

text \<open>The \<^verbatim>\<open>try\<close> block of \<^verbatim>\<open>disconnect\<close>, for the provider it was given.\<close>

definition disconnect_body :: "world \<Rightarrow> provider_ref \<Rightarrow> unit io" where
  "disconnect_body w prov =
     io_bind (io_get isExtension) (\<lambda>ext.
       if ext then
         io_seq (roninEvent_listeners (removeEventListener ''accountsChanged'' OnAccountsChanged))
        (io_seq (roninEvent_listeners (removeEventListener ''chainChanged'' OnChainChanged))
        (io_seq (roninEvent_listeners (removeEventListener ''disconnect'' OnDisconnect))
        (io_seq (emit ''change'' (JObj [(''account'', JUndefined)]))
        (io_seq (emit ''disconnect'' JUndefined)
                (io_when (shimDisconnect (options w)) storage_removeShim)))))
       else
         io_seq (relay_call prov ProviderDisconnect
                   (\<lambda>r. case relay_disconnect w r of Inl e \<Rightarrow> Inl e | Inr r' \<Rightarrow> Inr ((), r')))
        (io_seq (emit ''change'' (JObj [(''account'', JUndefined)]))
                (emit ''disconnect'' JUndefined)))"

text \<open>The \<^verbatim>\<open>finally\<close> block of \<^verbatim>\<open>disconnect\<close>.\<close>

definition disconnect_finally :: "unit io" where
  "disconnect_finally = io_seq removeListeners (setRequestedChainsIds [])"

definition disconnect :: "world \<Rightarrow> unit io" where
  "disconnect w =
     io_bind (getProvider w None) (\<lambda>prov.
       try_finally
         (try_catch (disconnect_body w prov)
            (\<lambda>error.
               if \<not> regex_test_ci ''No matching key'' (message w error)
               then io_throw error
               else io_return ()))
         disconnect_finally)"

text \<open>
  The condition of \<^verbatim>\<open>isAuthorized\<close> reads the store only when the first two conjuncts
  hold; \<^verbatim>\<open>!this.storage?.getItem(key)\<close> is false exactly when the flag is stored.
  \<^verbatim>\<open>const [account] = await this.getAccount()\<close> takes the first character of the address,
  so \<^verbatim>\<open>!account\<close> holds exactly for the empty string.
\<close>

definition isAuthorized :: "world \<Rightarrow> bool io" where
  "isAuthorized w =
     try_catch
       (io_bind (io_get isExtension) (\<lambda>ext.
        io_bind (if shimDisconnect (options w) \<and> ext
                 then io_bind (storage_getItem w shimDisconnect_item) (\<lambda>v.
                        io_return (v \<noteq> Some True))
                 else io_return False)
          (\<lambda>shimmed.
             if shimmed then io_return False
             else io_bind (getAccount w) (\<lambda>addr.
                    if addr = [] then io_return False else io_return True))))
       (\<lambda>_. io_return False)"

section \<open>Event handlers\<close>

definition onAccountsChanged :: "world \<Rightarrow> unit io" where
  "onAccountsChanged w =
     io_bind (getAccount w) (\<lambda>address.
       if address = [] then emit ''disconnect'' JUndefined
       else emit ''change'' (JObj [(''account'', JStr address)]))"

definition onChainChanged :: "world \<Rightarrow> unit io" where
  "onChainChanged w =
     io_bind (getChainId w) (\<lambda>i.
       emit ''change''
         (JObj [(''chain'', JObj [(''id'', js_chain_id i),
                                  (''unsupported'', JBool (isChainUnsupported w i))])]))"

definition onDisconnect :: "unit io" where
  "onDisconnect = io_seq (setRequestedChainsIds []) (emit ''disconnect'' JUndefined)"

text \<open>\<^verbatim>\<open>window.open\<close> needs \<^verbatim>\<open>window\<close>; the template literal appends the uri as it is.\<close>

definition window_open :: "string \<Rightarrow> string \<Rightarrow> string \<Rightarrow> unit io" where
  "window_open url target features =
     (\<lambda>s. case window s of
        None \<Rightarrow> (Inl (ReferenceError ''window is not defined''), s)
      | Some _ \<Rightarrow> effect_log (WindowOpen url target features) s)"

definition onDisplayUri :: "world \<Rightarrow> string \<Rightarrow> unit io" where
  "onDisplayUri w uri =
     io_seq (emit ''message'' (JObj [(''type'', JStr ''display_uri''), (''data'', JStr uri)]))
            (io_when (mobile w \<and> uri \<noteq> [])
               (window_open (''https://wallet.roninchain.com/auth-connect?uri='' @ uri)
                  ''_self'' ''noreferrer noopener''))"

definition onConnect :: "unit io" where
  "onConnect = emit ''connect'' (JObj [])"

section \<open>The event loop around the initialisation\<close>

text \<open>
  What can happen to the stored promise, in any order: \<^verbatim>\<open>#createProvider\<close> is called
  again (by the constructor, by \<^verbatim>\<open>getProvider\<close>), the dynamic import settles, or
  \<^verbatim>\<open>EthereumProvider.init\<close> settles. A schedule is a list of such events.
\<close>

datatype init_event = CallCreateProvider | ImportSettled | InitSettled

fun run_event :: "world \<Rightarrow> init_event \<Rightarrow> conn_state \<Rightarrow> conn_state" where
  "run_event w CallCreateProvider s = snd (createProvider_call s)"
| "run_event w ImportSettled s = initProvider_imported w s"
| "run_event w InitSettled s = initProvider_initialized w s"

definition run_events :: "world \<Rightarrow> init_event list \<Rightarrow> conn_state \<Rightarrow> conn_state" where
  "run_events w evs s = fold (run_event w) evs s"

text \<open>Counted on the trace: runs of \<^verbatim>\<open>#initProvider\<close> started (each requests the import),
  and calls of \<^verbatim>\<open>EthereumProvider.init\<close>, the construction of a relay provider.\<close>

fun is_construction :: "effect \<Rightarrow> bool" where
  "is_construction (EthereumProviderInit _) = True"
| "is_construction _ = False"

definition constructions :: "conn_state \<Rightarrow> nat" where
  "constructions s = length (filter is_construction (trace s))"

definition initialisations :: "conn_state \<Rightarrow> nat" where
  "initialisations s = count_list (trace s) DynamicImport"

text \<open>\<^verbatim>\<open>#initProvider\<close> reaches \<^verbatim>\<open>EthereumProvider.init\<close>: the import resolves and
  \<^verbatim>\<open>if (defaultChain)\<close> holds, the first configured chain id exists and is not zero.\<close>

definition reaches_init :: "world \<Rightarrow> bool" where
  "reaches_init w =
     (import_failure w = None
      \<and> (case map chain_id (chains_cfg w) of [] \<Rightarrow> False | d # _ \<Rightarrow> d \<noteq> 0))"

text \<open>The test of the constructor: \<^verbatim>\<open>window\<close> is defined and \<^verbatim>\<open>window.ronin\<close> is absent.\<close>

definition browser_without_extension :: "window_obj option \<Rightarrow> bool" where
  "browser_without_extension win = (case win of None \<Rightarrow> False | Some wo \<Rightarrow> ronin wo = None)"

section \<open>The pairing payload in the spec's words\<close>

text \<open>
  The spec gives the pairing message as
  \<^verbatim>\<open>{ type: "display_uri", data: { uri: string, mobile: boolean } }\<close>. This definition
  follows the spec, for comparison with what \<open>onDisplayUri\<close> emits.
\<close>

definition spec_display_uri_message :: "string \<Rightarrow> bool \<Rightarrow> jsval" where
  "spec_display_uri_message u b =
     JObj [(''type'', JStr ''display_uri''),
           (''data'', JObj [(''uri'', JStr u), (''mobile'', JBool b)])]"

section \<open>Concrete environments\<close>

text \<open>The chain of \<^verbatim>\<open>src/package/src/chain/mainnet.ts\<close>.\<close>

definition ronin_chain :: chain where
  "ronin_chain =
     \<lparr>chain_id = 2020, chain_name = ''Ronin mainnet'',
      nativeCurrency = \<lparr>currency_name = ''RON'', symbol = ''RON'', decimals = 18\<rparr>,
      rpc_http = [''https://api.roninchain.com/rpc''],
      explorer_url = Some ''https://app.roninchain.com/''\<rparr>"

definition demo_relay :: relay where
  "demo_relay = \<lparr>session = None, accounts = [], relay_chainId = 2020\<rparr>"

text \<open>
  A host configured as \<^verbatim>\<open>_app.tsx\<close> does (the one chain, default options) whose
  collaborators all succeed.
\<close>

definition demo_world :: world where
  "demo_world =
     \<lparr>chains_cfg = [ronin_chain],
      options = \<lparr>projectId = ''demo'', metadata = None, relayUrl = None, shimDisconnect = True\<rparr>,
      mobile = False,
      import_failure = None,
      EthereumProvider_init = (\<lambda>_. Inr demo_relay),
      relay_connect = (\<lambda>r. Inr (r\<lparr>session := Some \<lparr>namespaces = None\<rparr>, accounts := [''0xabc'']\<rparr>)),
      relay_enable = (\<lambda>r. Inr (accounts r, r)),
      relay_disconnect = (\<lambda>r. Inr (r\<lparr>session := None, accounts := []\<rparr>)),
      rpc_accounts = (\<lambda>_ _. Inr [''0xabc'']),
      rpc_chainId = (\<lambda>_. Inr 2020),
      rpc_wallet = (\<lambda>_ _. None),
      getAddress = (\<lambda>a. case a of None \<Rightarrow> Inl (Error ''Address is invalid.'') | Some x \<Rightarrow> Inr x),
      numberToHex = (\<lambda>n. if n = 2020 then Inr ''0x7e4'' else Inl (Error ''out of range'')),
      parseInt = (\<lambda>_. None),
      viem_message = (\<lambda>_. ''An error occurred.''),
      storage_getItem_failure = None\<rparr>"

definition empty_store :: kv_store where
  "empty_store = \<lparr>shimDisconnect_item = False, requestedChains_item = None\<rparr>"

text \<open>The connector as constructed in a browser without the extension.\<close>

definition browser_state :: conn_state where
  "browser_state = constructor demo_world (Some \<lparr>ronin = None\<rparr>) (Some empty_store)"

definition mobile_world :: world where
  "mobile_world = demo_world\<lparr>mobile := True\<rparr>"

text \<open>A wallet whose user declines every request, with the message wallets give for it.\<close>

definition rejecting_world :: world where
  "rejecting_world =
     demo_world\<lparr>rpc_accounts := (\<lambda>_ _. Inl (Error ''User rejected the request.'')),
                 rpc_wallet := (\<lambda>_ _. Some (Error ''User rejected the request.''))\<rparr>"

text \<open>A wallet that fails for another reason.\<close>

definition offline_world :: world where
  "offline_world =
     demo_world\<lparr>rpc_accounts := (\<lambda>_ _. Inl (Error ''Request timed out.'')),
                 rpc_wallet := (\<lambda>_ _. Some (Error ''user rejected request''))\<rparr>"

text \<open>Collaborators that all fail.\<close>

definition failing_world :: world where
  "failing_world =
     demo_world\<lparr>import_failure := Some (Error ''Loading chunk failed.''),
                 EthereumProvider_init := (\<lambda>_. Inl (Error ''init failed'')),
                 relay_connect := (\<lambda>_. Inl (Error ''connect failed'')),
                 relay_enable := (\<lambda>_. Inl (Error ''enable failed'')),
                 relay_disconnect := (\<lambda>_. Inl (Error ''disconnect failed'')),
                 rpc_accounts := (\<lambda>_ _. Inl (Error ''request failed'')),
                 rpc_chainId := (\<lambda>_. Inl (Error ''request failed'')),
                 rpc_wallet := (\<lambda>_ _. Some (Error ''request failed'')),
                 getAddress := (\<lambda>_. Inl (Error ''Address is invalid.'')),
                 numberToHex := (\<lambda>_. Inl (Error ''out of range'')),
                 storage_getItem_failure := Some (Error ''The operation is insecure.'')\<rparr>"

text \<open>The connector as constructed in a browser where the extension is present.\<close>

definition extension_state :: conn_state where
  "extension_state =
     constructor demo_world (Some \<lparr>ronin = Some \<lparr>provider_on = False, roninEvent = []\<rparr>\<rparr>)
       (Some empty_store)"

text \<open>The same connector after a connect through the extension.\<close>

definition connected_extension_state :: conn_state where
  "connected_extension_state = snd (connect demo_world extension_state)"

text \<open>
  A page reload in a browser without the extension; the store still holds the shim flag of
  an earlier injected session and the chains requested in an earlier relay session.
\<close>

definition reloaded_state :: conn_state where
  "reloaded_state =
     constructor demo_world (Some \<lparr>ronin = None\<rparr>)
       (Some \<lparr>shimDisconnect_item = True, requestedChains_item = Some [2020]\<rparr>)"

text \<open>The connector after a connect over the relay.\<close>

definition connected_relay_state :: conn_state where
  "connected_relay_state = snd (connect demo_world browser_state)"

text \<open>A relay whose session is already gone, and one whose disconnect fails otherwise.\<close>

definition no_key_world :: world where
  "no_key_world =
     demo_world\<lparr>relay_disconnect := (\<lambda>_. Inl (Error ''No matching key. session topic does not exist''))\<rparr>"

definition broken_relay_world :: world where
  "broken_relay_world =
     demo_world\<lparr>relay_disconnect := (\<lambda>_. Inl (Error ''WebSocket connection closed''))\<rparr>"

text \<open>A host that configures no chain.\<close>

definition unconfigured_world :: world where
  "unconfigured_world = demo_world\<lparr>chains_cfg := []\<rparr>"

text \<open>The connector inside its constructor, before \<^verbatim>\<open>#createProvider\<close> is called there.\<close>

definition fresh_state :: conn_state where
  "fresh_state =
     \<lparr>window = Some \<lparr>ronin = None\<rparr>, isExtension = False, provider = None,
      provider_listeners = [], initProviderPromise = None,
      storage = Some empty_store, trace = []\<rparr>"

text \<open>
  A relay whose session authorises chain 2021 only and supports adding a chain; the wallet
  accepts every request.
\<close>

definition session_world :: world where
  "session_world =
     demo_world
       \<lparr>relay_connect :=
          (\<lambda>r. Inr (r\<lparr>session :=
                        Some \<lparr>namespaces =
                                Some [(''eip155'',
                                       \<lparr>ns_chains = Some [''eip155:2021''],
                                        ns_methods = Some [''eth_sendTransaction'',
                                                           ''wallet_addEthereumChain'']\<rparr>)]\<rparr>,
                      accounts := [''0xabc'']\<rparr>)),
        parseInt := (\<lambda>t. if t = ''2021'' then Some 2021 else None)\<rparr>"

definition session_state :: conn_state where
  "session_state = snd (connect session_world browser_state)"

text \<open>A wallet that declines with the words \<^verbatim>\<open>switchChain\<close> looks for.\<close>

definition declining_world :: world where
  "declining_world = demo_world\<lparr>rpc_wallet := (\<lambda>_ _. Some (Error ''User rejected request''))\<rparr>"

text \<open>
  The extension is injected after construction, and its provider already has \<^verbatim>\<open>on\<close>
  (natively, or patched by another connector instance).
\<close>

definition late_injected_state :: conn_state where
  "late_injected_state =
     browser_state\<lparr>window := Some \<lparr>ronin = Some \<lparr>provider_on = True, roninEvent = []\<rparr>\<rparr>\<rparr>"

text \<open>
  The extension is injected after construction and its provider has no \<^verbatim>\<open>on\<close> yet, as
  the patch in \<^verbatim>\<open>getProvider\<close> expects. The store holds no shim flag: the user has
  disconnected, or never connected.
\<close>

definition late_unpatched_state :: conn_state where
  "late_unpatched_state =
     browser_state\<lparr>window := Some \<lparr>ronin = Some \<lparr>provider_on = False, roninEvent = []\<rparr>\<rparr>\<rparr>"

section \<open>Properties\<close>

lemmas io_defs = io_return_def io_throw_def io_bind_def io_seq_def io_when_def io_get_def
  io_modify_def external_def try_catch_def try_finally_def effect_log_def emit_def

lemma browser_state_eq:
  "browser_state =
     \<lparr>window = Some \<lparr>ronin = None\<rparr>, isExtension = False, provider = None,
      provider_listeners = [], initProviderPromise = Some Importing,
      storage = Some empty_store, trace = [DynamicImport]\<rparr>"
  by (simp add: browser_state_def constructor_def createProvider_call_def)

subsection \<open>Switching to a chain that is not configured\<close>

text \<open>
  C3. For every chain id that is not the id of a configured chain, \<^verbatim>\<open>switchChain\<close> rejects
  with the chain-not-found error (\<^verbatim>\<open>SwitchChainError\<close> around
  \<^verbatim>\<open>Error('chain not found on connector.')\<close>) and leaves the whole state as it was: the
  trace is unchanged, so no RPC request was issued to any provider.
\<close>

theorem switchChain_unknown_chain:
  assumes "chainId \<notin> chain_id ` set (chains_cfg w)"
  shows "switchChain w chainId s
           = (Inl (SwitchChainError (Error ''chain not found on connector.'')), s)
         \<and> trace (snd (switchChain w chainId s)) = trace s"
proof -
  have "find (\<lambda>c. chain_id c = chainId) (chains_cfg w) = None"
    using assms by (auto simp: find_None_iff)
  then show ?thesis
    by (simp add: switchChain_def io_throw_def)
qed

theorem switchChain_unknown_chain_witness:
  "(1::int) \<notin> chain_id ` set (chains_cfg demo_world)
   \<and> switchChain demo_world 1 browser_state
       = (Inl (SwitchChainError (Error ''chain not found on connector.'')), browser_state)
   \<and> trace (snd (switchChain demo_world 1 browser_state)) = trace browser_state"
  using switchChain_unknown_chain [of 1 demo_world browser_state]
  by (simp add: demo_world_def ronin_chain_def)

lemma extension_state_eq:
  "extension_state =
     \<lparr>window = Some \<lparr>ronin = Some \<lparr>provider_on = False, roninEvent = []\<rparr>\<rparr>,
      isExtension = True, provider = None, provider_listeners = [],
      initProviderPromise = None, storage = Some empty_store, trace = []\<rparr>"
  by (simp add: extension_state_def constructor_def)

lemma rejected_message_tests:
  "regex_test_ci ''user rejected'' (Some ''User rejected the request.'')"
  "\<not> regex_test_ci ''user rejected request'' (Some ''User rejected the request.'')"
  "\<not> regex_test_ci ''user rejected'' (Some ''Request timed out.'')"
  "regex_test_ci ''user rejected request'' (Some ''user rejected request'')"
  by code_simp+

lemmas acquire_defs = getProvider_def getProvider_plain_def getProvider_with_def
  createProvider_def createProvider_call_def await_initProvider_def
  initProvider_imported_def initProvider_initialized_def

lemmas call_defs = request_accounts_def request_chainId_def request_wallet_def
  relay_member_def relay_call_def roninEvent_listeners_def first_def

subsection \<open>The pairing-URI handler\<close>

text \<open>
  C1, as the code has it. For every uri \<open>u\<close>, in a browser, \<^verbatim>\<open>onDisplayUri\<close> emits exactly
  one \<^verbatim>\<open>message\<close> event whose payload is \<^verbatim>\<open>{ type: 'display_uri', data: u }\<close>, the uri
  as a bare string and no \<^verbatim>\<open>mobile\<close> field. Nothing else happens unless the runtime is
  mobile and \<open>u\<close> is not empty; then, after the event, the page is navigated to
  \<^verbatim>\<open>https://wallet.roninchain.com/auth-connect?uri=\<close> followed by \<open>u\<close>.
\<close>

theorem onDisplayUri_effects:
  assumes "window s \<noteq> None"
  shows "onDisplayUri w u s =
           (Inr (),
            s\<lparr>trace := trace s
                 @ Emit ''message'' (JObj [(''type'', JStr ''display_uri''), (''data'', JStr u)])
                 # (if mobile w \<and> u \<noteq> []
                    then [WindowOpen (''https://wallet.roninchain.com/auth-connect?uri='' @ u)
                            ''_self'' ''noreferrer noopener'']
                    else [])\<rparr>)"
  using assms by (auto simp: onDisplayUri_def window_open_def io_defs)

theorem onDisplayUri_effects_witness:
  "window browser_state \<noteq> None
   \<and> onDisplayUri mobile_world ''wc:abc'' browser_state =
       (Inr (),
        browser_state\<lparr>trace := trace browser_state
          @ [Emit ''message'' (JObj [(''type'', JStr ''display_uri''), (''data'', JStr ''wc:abc'')]),
             WindowOpen ''https://wallet.roninchain.com/auth-connect?uri=wc:abc''
               ''_self'' ''noreferrer noopener'']\<rparr>)"
  using onDisplayUri_effects [of browser_state mobile_world "''wc:abc''"]
  by (simp add: browser_state_eq mobile_world_def demo_world_def)

text \<open>
  The claim as the spec words it fails: on the pairing event for \<^verbatim>\<open>wc:abc\<close> the emitted
  payload is the bare string, which is not the structured message for either value of the
  mobile flag; and on a mobile runtime an empty uri causes no navigation.
\<close>

theorem onDisplayUri_payload_counterexample:
  "trace (snd (onDisplayUri demo_world ''wc:abc'' browser_state)) =
     trace browser_state
       @ [Emit ''message'' (JObj [(''type'', JStr ''display_uri''), (''data'', JStr ''wc:abc'')])]
   \<and> JObj [(''type'', JStr ''display_uri''), (''data'', JStr ''wc:abc'')]
        \<noteq> spec_display_uri_message ''wc:abc'' False
   \<and> JObj [(''type'', JStr ''display_uri''), (''data'', JStr ''wc:abc'')]
        \<noteq> spec_display_uri_message ''wc:abc'' True
   \<and> mobile mobile_world
   \<and> trace (snd (onDisplayUri mobile_world [] browser_state)) =
       trace browser_state
         @ [Emit ''message'' (JObj [(''type'', JStr ''display_uri''), (''data'', JStr [])])]"
  by (simp add: onDisplayUri_def io_defs demo_world_def mobile_world_def
        spec_display_uri_message_def)

subsection \<open>Error normalisation in connect and switchChain\<close>

lemma connect_injected_request_fails:
  assumes "window s = Some wo" "ronin wo = Some ro" "provider_on ro \<longrightarrow> isExtension s"
    and "rpc_accounts w InjectedProvider Eth_requestAccounts = Inl e"
  shows "connect_body w s =
           (Inl e,
            s\<lparr>window := Some (wo\<lparr>ronin := Some (ro\<lparr>provider_on := True,
                  roninEvent :=
                    addEventListener ''disconnect'' OnDisconnect
                      (addEventListener ''chainChanged'' OnChainChanged
                        (addEventListener ''accountsChanged'' OnAccountsChanged (roninEvent ro)))\<rparr>)\<rparr>),
              isExtension := True,
              trace := trace s @ [Emit ''message'' (JObj [(''type'', JStr ''connecting'')]),
                                  Request InjectedProvider Eth_requestAccounts]\<rparr>)"
  using assms
  by (auto simp: connect_body_def getProvider_def getProvider_with_def roninEvent_listeners_def
        request_accounts_def io_defs)

lemma switchChain_body_request_fails:
  assumes "window s = Some wo" "ronin wo = Some ro" "provider s = None"
    and "numberToHex w chainId = Inr hex"
    and "rpc_wallet w InjectedProvider (Wallet_switchEthereumChain hex) = Some e"
  shows "fst (switchChain_body w chainId ch s) = Inl e"
  using assms
  by (auto simp: switchChain_body_def getProvider_plain_def getProvider_with_def
        getNamespaceChainsIds_def getNamespaceMethods_def
        request_wallet_def io_defs)

text \<open>
  C2, as the code has it. An error \<open>e\<close> raised inside the \<^verbatim>\<open>try\<close> block of \<^verbatim>\<open>connect\<close>
  is rethrown as \<^verbatim>\<open>UserRejectedRequestError\<close> around \<open>e\<close> when its message contains
  ``user rejected'' (letters compared without case) and is rethrown unchanged otherwise; a
  successful connect is returned as it is. An error raised inside the \<^verbatim>\<open>try\<close> block of
  \<^verbatim>\<open>switchChain\<close> is rethrown as \<^verbatim>\<open>UserRejectedRequestError\<close> around \<open>e\<close> when its
  message (or the thrown string) contains ``user rejected request'', and as
  \<^verbatim>\<open>SwitchChainError\<close> around \<open>e\<close> otherwise. The last two conjuncts follow an error of
  the injected wallet from its answer to the caller.
\<close>

theorem connect_switchChain_error_normalisation:
  "(connect_body w s = (Inl e, s') \<longrightarrow>
      connect w s =
        (Inl (if regex_test_ci ''user rejected'' (message w e)
              then UserRejectedRequestError e else e), s'))
   \<and> (connect_body w s = (Inr res, s') \<longrightarrow> connect w s = (Inr res, s'))
   \<and> (find (\<lambda>c. chain_id c = chainId) (chains_cfg w) = Some ch
        \<and> switchChain_body w chainId ch s = (Inl e, s') \<longrightarrow>
      switchChain w chainId s =
        (Inl (if regex_test_ci ''user rejected request'' (thrown_text w e)
              then UserRejectedRequestError e else SwitchChainError e), s'))
   \<and> (window s = Some wo \<and> ronin wo = Some ro \<and> (provider_on ro \<longrightarrow> isExtension s)
        \<and> rpc_accounts w InjectedProvider Eth_requestAccounts = Inl e \<longrightarrow>
      fst (connect w s) =
        Inl (if regex_test_ci ''user rejected'' (message w e)
             then UserRejectedRequestError e else e))
   \<and> (window s = Some wo \<and> ronin wo = Some ro \<and> provider s = None
        \<and> find (\<lambda>c. chain_id c = chainId) (chains_cfg w) = Some ch
        \<and> numberToHex w chainId = Inr hex
        \<and> rpc_wallet w InjectedProvider (Wallet_switchEthereumChain hex) = Some e \<longrightarrow>
      fst (switchChain w chainId s) =
        Inl (if regex_test_ci ''user rejected request'' (thrown_text w e)
             then UserRejectedRequestError e else SwitchChainError e))"
proof (intro conjI impI)
  show "connect w s =
          (Inl (if regex_test_ci ''user rejected'' (message w e)
                then UserRejectedRequestError e else e), s')"
    if "connect_body w s = (Inl e, s')"
    using that by (simp add: connect_def try_catch_def io_throw_def)
  show "connect w s = (Inr res, s')" if "connect_body w s = (Inr res, s')"
    using that by (simp add: connect_def try_catch_def)
  show "switchChain w chainId s =
          (Inl (if regex_test_ci ''user rejected request'' (thrown_text w e)
                then UserRejectedRequestError e else SwitchChainError e), s')"
    if "find (\<lambda>c. chain_id c = chainId) (chains_cfg w) = Some ch
        \<and> switchChain_body w chainId ch s = (Inl e, s')"
    using that by (simp add: switchChain_def try_catch_def io_throw_def)
  show "fst (connect w s) =
          Inl (if regex_test_ci ''user rejected'' (message w e)
               then UserRejectedRequestError e else e)"
    if "window s = Some wo \<and> ronin wo = Some ro \<and> (provider_on ro \<longrightarrow> isExtension s)
        \<and> rpc_accounts w InjectedProvider Eth_requestAccounts = Inl e"
    using that connect_injected_request_fails [of s wo ro w e]
    by (simp add: connect_def try_catch_def io_throw_def)
  show "fst (switchChain w chainId s) =
          Inl (if regex_test_ci ''user rejected request'' (thrown_text w e)
               then UserRejectedRequestError e else SwitchChainError e)"
    if "window s = Some wo \<and> ronin wo = Some ro \<and> provider s = None
        \<and> find (\<lambda>c. chain_id c = chainId) (chains_cfg w) = Some ch
        \<and> numberToHex w chainId = Inr hex
        \<and> rpc_wallet w InjectedProvider (Wallet_switchEthereumChain hex) = Some e"
  proof -
    have "fst (switchChain_body w chainId ch s) = Inl e"
      using that switchChain_body_request_fails [of s wo ro w chainId hex e ch] by simp
    then obtain s1 where "switchChain_body w chainId ch s = (Inl e, s1)"
      by (cases "switchChain_body w chainId ch s") simp
    with that show ?thesis
      by (simp add: switchChain_def try_catch_def io_throw_def)
  qed
qed

lemma connect_body_extension:
  "connect_body demo_world extension_state =
     (Inr \<lparr>account = ''0xabc'', result_chain_id = Some 2020, unsupported = False\<rparr>,
      \<lparr>window = Some \<lparr>ronin = Some \<lparr>provider_on = True,
         roninEvent = [(''accountsChanged'', OnAccountsChanged),
                       (''chainChanged'', OnChainChanged),
                       (''disconnect'', OnDisconnect)]\<rparr>\<rparr>,
      isExtension = True, provider = None, provider_listeners = [],
      initProviderPromise = None,
      storage = Some \<lparr>shimDisconnect_item = True, requestedChains_item = None\<rparr>,
      trace = [Emit ''message'' (JObj [(''type'', JStr ''connecting'')]),
               Request InjectedProvider Eth_requestAccounts,
               Request InjectedProvider Eth_chainId,
               Emit ''connect''
                 (JObj [(''account'', JStr ''0xabc''),
                        (''chain'', JObj [(''id'', JNum 2020), (''unsupported'', JBool False)])])]\<rparr>)"
  by (simp add: connect_body_def getChainId_def
        isChainUnsupported_def js_chain_id_def storage_setShim_def addEventListener_def
        acquire_defs call_defs io_defs extension_state_eq demo_world_def ronin_chain_def
        empty_store_def)

lemma find_ronin_chain:
  "find (\<lambda>c. chain_id c = 2020) (chains_cfg demo_world) = Some ronin_chain"
  by (simp add: demo_world_def ronin_chain_def)

theorem connect_switchChain_error_normalisation_witness:
  "fst (connect_body rejecting_world extension_state) = Inl (Error ''User rejected the request.'')
   \<and> fst (connect rejecting_world extension_state)
       = Inl (UserRejectedRequestError (Error ''User rejected the request.''))
   \<and> fst (connect_body offline_world extension_state) = Inl (Error ''Request timed out.'')
   \<and> fst (connect offline_world extension_state) = Inl (Error ''Request timed out.'')
   \<and> fst (switchChain_body offline_world 2020 ronin_chain extension_state)
       = Inl (Error ''user rejected request'')
   \<and> fst (switchChain offline_world 2020 extension_state)
       = Inl (UserRejectedRequestError (Error ''user rejected request''))
   \<and> fst (connect_body demo_world extension_state)
       = Inr \<lparr>account = ''0xabc'', result_chain_id = Some 2020, unsupported = False\<rparr>
   \<and> fst (connect demo_world extension_state)
       = Inr \<lparr>account = ''0xabc'', result_chain_id = Some 2020, unsupported = False\<rparr>"
proof -
  let ?wo = "\<lparr>ronin = Some \<lparr>provider_on = False, roninEvent = []\<rparr>\<rparr>"
  let ?ro = "\<lparr>provider_on = False, roninEvent = []\<rparr>"
  have r: "fst (connect_body rejecting_world extension_state) = Inl (Error ''User rejected the request.'')"
    using connect_injected_request_fails
            [of extension_state ?wo ?ro rejecting_world "Error ''User rejected the request.''"]
    by (simp add: extension_state_eq rejecting_world_def)
  have o: "fst (connect_body offline_world extension_state) = Inl (Error ''Request timed out.'')"
    using connect_injected_request_fails
            [of extension_state ?wo ?ro offline_world "Error ''Request timed out.''"]
    by (simp add: extension_state_eq offline_world_def)
  have b: "fst (switchChain_body offline_world 2020 ronin_chain extension_state)
             = Inl (Error ''user rejected request'')"
    using switchChain_body_request_fails
            [of extension_state ?wo ?ro offline_world 2020 "''0x7e4''"
                "Error ''user rejected request''" ronin_chain]
    by (simp add: extension_state_eq offline_world_def demo_world_def)
  obtain s1 where r': "connect_body rejecting_world extension_state
                          = (Inl (Error ''User rejected the request.''), s1)"
    using r by (cases "connect_body rejecting_world extension_state") auto
  obtain s2 where o': "connect_body offline_world extension_state
                          = (Inl (Error ''Request timed out.''), s2)"
    using o by (cases "connect_body offline_world extension_state") auto
  obtain s3 where b': "switchChain_body offline_world 2020 ronin_chain extension_state
                          = (Inl (Error ''user rejected request''), s3)"
    using b by (cases "switchChain_body offline_world 2020 ronin_chain extension_state") auto
  have f: "find (\<lambda>c. chain_id c = 2020) (chains_cfg offline_world) = Some ronin_chain"
    by (simp add: offline_world_def find_ronin_chain)
  have 1: "fst (connect rejecting_world extension_state)
             = Inl (UserRejectedRequestError (Error ''User rejected the request.''))"
    using connect_switchChain_error_normalisation
            [of rejecting_world extension_state "Error ''User rejected the request.''" s1] r'
    by (simp add: rejected_message_tests)
  have 2: "fst (connect offline_world extension_state) = Inl (Error ''Request timed out.'')"
    using connect_switchChain_error_normalisation
            [of offline_world extension_state "Error ''Request timed out.''" s2] o'
    by (simp add: rejected_message_tests)
  have 3: "fst (switchChain offline_world 2020 extension_state)
             = Inl (UserRejectedRequestError (Error ''user rejected request''))"
    using connect_switchChain_error_normalisation
            [of offline_world extension_state "Error ''user rejected request''" s3
                _ 2020 ronin_chain] b' f
    by (simp add: rejected_message_tests thrown_text_def)
  have 4: "fst (connect demo_world extension_state)
             = Inr \<lparr>account = ''0xabc'', result_chain_id = Some 2020, unsupported = False\<rparr>"
    using connect_switchChain_error_normalisation
            [of demo_world extension_state _ "snd (connect_body demo_world extension_state)"
                "\<lparr>account = ''0xabc'', result_chain_id = Some 2020, unsupported = False\<rparr>"]
    by (simp add: connect_body_extension)
  from r o b 1 2 3 4 show ?thesis by (simp add: connect_body_extension)
qed

text \<open>
  The claim as stated fails for \<^verbatim>\<open>switchChain\<close>: the message wallets give for a declined
  request, ``User rejected the request.'', contains ``user rejected'' but not ``user
  rejected request'', and the wallet's error comes back as \<^verbatim>\<open>SwitchChainError\<close>, not as
  \<^verbatim>\<open>UserRejectedRequestError\<close>.
\<close>

theorem switchChain_user_rejected_counterexample:
  "regex_test_ci ''user rejected'' (message rejecting_world (Error ''User rejected the request.''))
   \<and> switchChain rejecting_world 2020 extension_state =
       (Inl (SwitchChainError (Error ''User rejected the request.'')),
        extension_state
          \<lparr>window := Some \<lparr>ronin = Some \<lparr>provider_on = True, roninEvent = []\<rparr>\<rparr>,
           trace := [Request InjectedProvider (Wallet_switchEthereumChain ''0x7e4'')]\<rparr>)"
  by (simp add: switchChain_def switchChain_body_def getProvider_plain_def getProvider_with_def
        getNamespaceChainsIds_def getNamespaceMethods_def request_wallet_def thrown_text_def
        io_defs rejecting_world_def demo_world_def ronin_chain_def extension_state_eq
        rejected_message_tests)

subsection \<open>Authorisation\<close>

text \<open>
  \<^verbatim>\<open>isAuthorized\<close> always resolves to a boolean, whatever the collaborators do, a
  throwing read of the store included. It is false when shim-disconnect is enabled, the
  connector's cached flag \<^verbatim>\<open>#isExtension\<close> is set and the shim flag is not stored or
  cannot be read (then nothing else is queried); otherwise it is false when
  \<^verbatim>\<open>getAccount\<close> fails or yields no address, and true when an address resolves.
\<close>

theorem isAuthorized_total:
  "isAuthorized w s =
     (if shimDisconnect (options w) \<and> isExtension s
         \<and> (\<not> storage_getShim s \<or> (storage s \<noteq> None \<and> storage_getItem_failure w \<noteq> None))
      then (Inr False, s)
      else (Inr (case fst (getAccount w s) of Inl _ \<Rightarrow> False | Inr a \<Rightarrow> a \<noteq> []),
            snd (getAccount w s)))"
  by (cases "getAccount w s"; cases "storage s"; cases "storage_getItem_failure w")
     (auto simp: isAuthorized_def storage_getItem_def storage_getShim_def io_defs
           split: sum.splits)

lemma connected_extension_state_eq:
  "connected_extension_state =
     \<lparr>window = Some \<lparr>ronin = Some \<lparr>provider_on = True,
         roninEvent = [(''accountsChanged'', OnAccountsChanged),
                       (''chainChanged'', OnChainChanged),
                       (''disconnect'', OnDisconnect)]\<rparr>\<rparr>,
      isExtension = True, provider = None, provider_listeners = [],
      initProviderPromise = None,
      storage = Some \<lparr>shimDisconnect_item = True, requestedChains_item = None\<rparr>,
      trace = [Emit ''message'' (JObj [(''type'', JStr ''connecting'')]),
               Request InjectedProvider Eth_requestAccounts,
               Request InjectedProvider Eth_chainId,
               Emit ''connect''
                 (JObj [(''account'', JStr ''0xabc''),
                        (''chain'', JObj [(''id'', JNum 2020), (''unsupported'', JBool False)])])]\<rparr>"
  by (simp add: connected_extension_state_def connect_def try_catch_def connect_body_extension)

theorem isAuthorized_total_witness:
  "fst (isAuthorized demo_world connected_extension_state) = Inr True
   \<and> fst (isAuthorized demo_world extension_state) = Inr False
   \<and> storage_getItem_failure failing_world \<noteq> None
   \<and> fst (isAuthorized failing_world connected_extension_state) = Inr False
   \<and> fst (isAuthorized failing_world browser_state) = Inr False"
proof -
  have a: "fst (getAccount demo_world connected_extension_state) = Inr ''0xabc''"
    by (simp add: getAccount_def acquire_defs call_defs io_defs connected_extension_state_eq
          demo_world_def)
  have c: "fst (getAccount failing_world browser_state) = Inl (Error ''Loading chunk failed.'')"
    by (simp add: getAccount_def acquire_defs call_defs io_defs browser_state_eq
          failing_world_def)
  show ?thesis
    using isAuthorized_total [of demo_world connected_extension_state]
      isAuthorized_total [of demo_world extension_state]
      isAuthorized_total [of failing_world connected_extension_state]
      isAuthorized_total [of failing_world browser_state] a c
    by (simp add: storage_getShim_def connected_extension_state_eq extension_state_eq
          browser_state_eq demo_world_def failing_world_def empty_store_def)
qed

text \<open>
  C9 at its failing input. The connector was constructed before the extension was
  injected, so \<^verbatim>\<open>#isExtension\<close> is false; now \<^verbatim>\<open>window.ronin\<close> is there, shim-disconnect
  is enabled and no shim flag is stored. \<^verbatim>\<open>isAuthorized\<close> tests the cached flag before
  anything re-detects the transport, skips the shim test, asks the injected wallet for its
  accounts and resolves to true. That very call sets the flag, and the next call on the
  same store resolves to false.
\<close>

theorem isAuthorized_stale_flag:
  "shimDisconnect (options demo_world)
   \<and> window late_unpatched_state = Some \<lparr>ronin = Some \<lparr>provider_on = False, roninEvent = []\<rparr>\<rparr>
   \<and> \<not> storage_getShim late_unpatched_state
   \<and> isAuthorized demo_world late_unpatched_state =
       (Inr True,
        late_unpatched_state
          \<lparr>window := Some \<lparr>ronin = Some \<lparr>provider_on = True, roninEvent = []\<rparr>\<rparr>,
           isExtension := True,
           trace := [DynamicImport, Request InjectedProvider Eth_accounts]\<rparr>)
   \<and> fst (isAuthorized demo_world
             (late_unpatched_state
                \<lparr>window := Some \<lparr>ronin = Some \<lparr>provider_on = True, roninEvent = []\<rparr>\<rparr>,
                 isExtension := True,
                 trace := [DynamicImport, Request InjectedProvider Eth_accounts]\<rparr>))
       = Inr False"
  by (simp add: isAuthorized_def getAccount_def storage_getItem_def storage_getShim_def
        acquire_defs call_defs io_defs late_unpatched_state_def browser_state_eq demo_world_def
        empty_store_def)

subsection \<open>Disconnect\<close>

lemma disconnect_finally_eq:
  "disconnect_finally s =
     (Inr (),
      s\<lparr>provider_listeners :=
           (if provider s = None then provider_listeners s
            else fold (\<lambda>(ev, h). emitter_removeListener ev h) connector_listeners
                   (provider_listeners s)),
        storage := map_option (\<lambda>st. st\<lparr>requestedChains_item := Some []\<rparr>) (storage s)\<rparr>)"
  by (simp add: disconnect_finally_def removeListeners_def setRequestedChainsIds_def io_defs)

lemma count_list_removed:
  assumes "x \<in> set connector_listeners"
  shows "count_list (fold (\<lambda>(ev, h). emitter_removeListener ev h) connector_listeners ls) x
           = count_list ls x - 1"
  using assms
  by (auto simp: connector_listeners_def emitter_removeListener_def count_list_remove1)

lemma getProvider_facts:
  assumes "getProvider w None s = (r, s1)"
  shows "provider_listeners s1 = provider_listeners s \<and> storage s1 = storage s
         \<and> (isl r \<or> window s1 \<noteq> None)
         \<and> (r = Inr RelayProvider \<longrightarrow> \<not> isExtension s1 \<and> provider s1 \<noteq> None)"
  using assms
  by (auto simp: acquire_defs io_defs Let_def
           split: option.splits if_splits list.splits sum.splits promise.splits)

lemma disconnect_body_injected:
  assumes "isExtension s1" "window s1 = Some wo"
  shows "disconnect_body w prov s1 =
           (Inr (),
            s1\<lparr>window := Some (wo\<lparr>ronin :=
                   map_option
                     (\<lambda>ro. ro\<lparr>roninEvent :=
                        removeEventListener ''disconnect'' OnDisconnect
                          (removeEventListener ''chainChanged'' OnChainChanged
                            (removeEventListener ''accountsChanged'' OnAccountsChanged
                              (roninEvent ro)))\<rparr>)
                     (ronin wo)\<rparr>),
                storage := (if shimDisconnect (options w)
                            then map_option (\<lambda>st. st\<lparr>shimDisconnect_item := False\<rparr>) (storage s1)
                            else storage s1),
                trace := trace s1 @ [Emit ''change'' (JObj [(''account'', JUndefined)]),
                                     Emit ''disconnect'' JUndefined]\<rparr>)"
proof (cases "ronin wo")
  case None
  then show ?thesis
    using assms
    by (simp add: disconnect_body_def roninEvent_listeners_def storage_removeShim_def io_defs)
next
  case (Some ro)
  then show ?thesis
    using assms
    by (simp add: disconnect_body_def roninEvent_listeners_def storage_removeShim_def io_defs)
qed

lemma disconnect_body_relay:
  assumes "\<not> isExtension s1" "disconnect_body w prov s1 = (r, s2)"
  shows "provider_listeners s2 = provider_listeners s1 \<and> storage s2 = storage s1
         \<and> (provider s2 = None \<longleftrightarrow> provider s1 = None)"
proof -
  have eq: "disconnect_body w prov s1 =
          io_seq (relay_call prov ProviderDisconnect
                   (\<lambda>r. case relay_disconnect w r of Inl e \<Rightarrow> Inl e | Inr r' \<Rightarrow> Inr ((), r')))
         (io_seq (emit ''change'' (JObj [(''account'', JUndefined)]))
                 (emit ''disconnect'' JUndefined)) s1"
    using assms(1) by (simp add: disconnect_body_def io_bind_def io_get_def)
  have run: "io_seq (relay_call prov ProviderDisconnect
                   (\<lambda>r. case relay_disconnect w r of Inl e \<Rightarrow> Inl e | Inr r' \<Rightarrow> Inr ((), r')))
         (io_seq (emit ''change'' (JObj [(''account'', JUndefined)]))
                 (emit ''disconnect'' JUndefined)) s1 = (r, s2)"
    using assms(2) eq by simp
  show ?thesis
  proof (cases prov)
    case InjectedProvider
    then show ?thesis using run by (auto simp: relay_call_def io_defs)
  next
    case NoProvider
    then show ?thesis using run by (auto simp: relay_call_def io_defs)
  next
    case RelayProvider
    show ?thesis
    proof (cases "provider s1")
      case None
      then show ?thesis using run RelayProvider by (auto simp: relay_call_def io_defs)
    next
      case (Some rl)
      then show ?thesis
        using run RelayProvider
        by (cases "relay_disconnect w rl") (auto simp: relay_call_def io_defs)
    qed
  qed
qed

lemma disconnect_body_facts:
  assumes "disconnect_body w prov s1 = (r, s2)" "window s1 \<noteq> None"
  shows "provider_listeners s2 = provider_listeners s1
         \<and> (provider s2 = None \<longleftrightarrow> provider s1 = None)
         \<and> (storage s2 = None \<longleftrightarrow> storage s1 = None)
         \<and> (\<not> isExtension s1 \<or> \<not> shimDisconnect (options w) \<longrightarrow> storage s2 = storage s1)
         \<and> (isExtension s1 \<longrightarrow>
              r = Inr ()
              \<and> (shimDisconnect (options w) \<longrightarrow> \<not> storage_getShim s2)
              \<and> (\<forall>x\<in>set native_listeners. \<not> native_registered s2 x))"
proof (cases "isExtension s1")
  case False
  then show ?thesis using disconnect_body_relay [OF False assms(1)] by simp
next
  case True
  obtain wo where wo: "window s1 = Some wo" using assms(2) by auto
  have s2: "(r, s2) = disconnect_body w prov s1" using assms(1) by simp
  show ?thesis
    unfolding disconnect_body_injected [OF True wo, of w prov] s2 [symmetric]
    using True s2 [unfolded disconnect_body_injected [OF True wo]]
    by (cases "ronin wo"; cases "storage s1")
       (auto simp: storage_getShim_def native_registered_def native_listeners_def
          removeEventListener_def)
qed

lemma try_catch_rethrow:
  "try_catch m (\<lambda>e. if P e then io_throw e else io_return ()) s =
     (case m s of
        (Inl e, s') \<Rightarrow> (if P e then Inl e else Inr (), s')
      | (Inr x, s') \<Rightarrow> (Inr x, s'))"
  by (auto simp: try_catch_def io_throw_def io_return_def split: prod.splits sum.splits)

lemma disconnect_unfold:
  assumes "getProvider w None s = (Inr prov, s1)" "disconnect_body w prov s1 = (r, s2)"
  shows "disconnect w s =
           ((case r of
               Inl e \<Rightarrow> if \<not> regex_test_ci ''No matching key'' (message w e) then Inl e else Inr ()
             | Inr x \<Rightarrow> Inr x),
            snd (disconnect_finally s2))"
  using assms
  by (auto simp: disconnect_def io_bind_def try_finally_def try_catch_rethrow disconnect_finally_eq
           split: sum.splits)

lemma disconnect_cleanup_acquired:
  assumes "getProvider w None s = (Inr prov, s1)"
  shows "getRequestedChainsIds (snd (disconnect w s)) = []
         \<and> (storage s \<noteq> None \<longrightarrow>
              map_option requestedChains_item (storage (snd (disconnect w s))) = Some (Some []))
         \<and> (provider (snd (disconnect w s)) \<noteq> None \<longrightarrow>
              (\<forall>x\<in>set connector_listeners.
                 count_list (provider_listeners (snd (disconnect w s))) x
                   = count_list (provider_listeners s) x - 1))
         \<and> (isExtension s1 \<longrightarrow>
              fst (disconnect w s) = Inr ()
              \<and> (\<forall>x\<in>set native_listeners. \<not> native_registered (snd (disconnect w s)) x)
              \<and> (shimDisconnect (options w) \<longrightarrow> \<not> storage_getShim (snd (disconnect w s))))
         \<and> (\<not> isExtension s1 \<or> \<not> shimDisconnect (options w) \<longrightarrow>
              storage_getShim (snd (disconnect w s)) = storage_getShim s)"
proof -
  obtain r s2 where body: "disconnect_body w prov s1 = (r, s2)"
    by (cases "disconnect_body w prov s1")
  note g = getProvider_facts [OF assms]
  have win: "window s1 \<noteq> None" using g by simp
  note b = disconnect_body_facts [OF body win]
  note d = disconnect_unfold [OF assms body]
  have 1: "getRequestedChainsIds (snd (disconnect w s)) = []"
    by (simp add: d disconnect_finally_eq getRequestedChainsIds_def split: option.splits)
  have 2: "storage s \<noteq> None \<longrightarrow>
             map_option requestedChains_item (storage (snd (disconnect w s))) = Some (Some [])"
    using g b by (auto simp: d disconnect_finally_eq)
  have 3: "provider (snd (disconnect w s)) \<noteq> None \<longrightarrow>
             (\<forall>x\<in>set connector_listeners.
                count_list (provider_listeners (snd (disconnect w s))) x
                  = count_list (provider_listeners s) x - 1)"
    using g b by (simp add: d disconnect_finally_eq count_list_removed)
  have 4: "isExtension s1 \<longrightarrow>
             fst (disconnect w s) = Inr ()
             \<and> (\<forall>x\<in>set native_listeners. \<not> native_registered (snd (disconnect w s)) x)
             \<and> (shimDisconnect (options w) \<longrightarrow> \<not> storage_getShim (snd (disconnect w s)))"
    using b win
    by (auto simp: d disconnect_finally_eq native_registered_def storage_getShim_def
             split: option.splits)
  have 5: "\<not> isExtension s1 \<or> \<not> shimDisconnect (options w) \<longrightarrow>
             storage_getShim (snd (disconnect w s)) = storage_getShim s"
    using g b
    by (auto simp: d disconnect_finally_eq storage_getShim_def split: option.splits)
  from 1 2 3 4 5 show ?thesis by blast
qed

text \<open>
  C5, as the code has it. A call to \<^verbatim>\<open>disconnect\<close> whose provider acquisition fails
  rejects with that error before the \<^verbatim>\<open>try\<close> is entered: no listener is removed and
  the store is left as it was. Every call in which the provider is acquired
  (\<^verbatim>\<open>getProvider\<close> returns) ends with the \<^verbatim>\<open>finally\<close> block, whether the transport
  disconnect succeeded or threw: one registration of each of the connector's six relay
  listeners is removed when a relay provider exists, and the requested-chains record reads
  as empty (it is stored as the empty list when there is a store). On the Injected
  transport the call succeeds, the three native listeners are gone and, with
  \<^verbatim>\<open>shimDisconnect\<close> enabled, the shim flag is absent afterwards. On the Relay transport,
  and with \<^verbatim>\<open>shimDisconnect\<close> disabled, the shim flag is left as it was.
\<close>

theorem disconnect_cleanup:
  "(getProvider w None s = (Inl e, s1) \<longrightarrow>
      disconnect w s = (Inl e, s1)
      \<and> provider_listeners s1 = provider_listeners s
      \<and> storage s1 = storage s)
   \<and> (getProvider w None s = (Inr prov, s1) \<longrightarrow>
        getRequestedChainsIds (snd (disconnect w s)) = []
        \<and> (storage s \<noteq> None \<longrightarrow>
             map_option requestedChains_item (storage (snd (disconnect w s))) = Some (Some []))
        \<and> (provider (snd (disconnect w s)) \<noteq> None \<longrightarrow>
             (\<forall>x\<in>set connector_listeners.
                count_list (provider_listeners (snd (disconnect w s))) x
                  = count_list (provider_listeners s) x - 1))
        \<and> (isExtension s1 \<longrightarrow>
             fst (disconnect w s) = Inr ()
             \<and> (\<forall>x\<in>set native_listeners. \<not> native_registered (snd (disconnect w s)) x)
             \<and> (shimDisconnect (options w) \<longrightarrow> \<not> storage_getShim (snd (disconnect w s))))
        \<and> (\<not> isExtension s1 \<or> \<not> shimDisconnect (options w) \<longrightarrow>
             storage_getShim (snd (disconnect w s)) = storage_getShim s))"
proof (intro conjI impI)
  assume f: "getProvider w None s = (Inl e, s1)"
  show "disconnect w s = (Inl e, s1)"
    using f by (simp add: disconnect_def io_bind_def)
  show "provider_listeners s1 = provider_listeners s" and "storage s1 = storage s"
    using getProvider_facts [OF f] by simp_all
next
  assume g: "getProvider w None s = (Inr prov, s1)"
  note c = disconnect_cleanup_acquired [OF g]
  show "getRequestedChainsIds (snd (disconnect w s)) = []"
    using c by blast
  show "map_option requestedChains_item (storage (snd (disconnect w s))) = Some (Some [])"
    if "storage s \<noteq> None"
    using c that by blast
  show "\<forall>x\<in>set connector_listeners.
          count_list (provider_listeners (snd (disconnect w s))) x
            = count_list (provider_listeners s) x - 1"
    if "provider (snd (disconnect w s)) \<noteq> None"
    using c that by blast
  show "fst (disconnect w s) = Inr ()" if "isExtension s1"
    using c that by blast
  show "\<forall>x\<in>set native_listeners. \<not> native_registered (snd (disconnect w s)) x"
    if "isExtension s1"
    using c that by blast
  show "\<not> storage_getShim (snd (disconnect w s))"
    if "isExtension s1" "shimDisconnect (options w)"
    using c that by blast
  show "storage_getShim (snd (disconnect w s)) = storage_getShim s"
    if "\<not> isExtension s1 \<or> \<not> shimDisconnect (options w)"
    using c that by blast
qed

lemma connected_relay_state_eq:
  "connected_relay_state =
     \<lparr>window = Some \<lparr>ronin = None\<rparr>, isExtension = False,
      provider = Some \<lparr>session = Some \<lparr>namespaces = None\<rparr>, accounts = [''0xabc''],
                        relay_chainId = 2020\<rparr>,
      provider_listeners = connector_listeners,
      initProviderPromise = Some Fulfilled,
      storage = Some \<lparr>shimDisconnect_item = False, requestedChains_item = Some [2020]\<rparr>,
      trace = [DynamicImport,
               EthereumProviderInit
                 \<lparr>showQrModal = False, init_projectId = ''demo'', init_chains = [2020],
                  optionalChains = None,
                  rpcMap = [(2020, Some ''https://api.roninchain.com/rpc'')],
                  init_metadata = None, init_relayUrl = None\<rparr>,
               Emit ''message'' (JObj [(''type'', JStr ''connecting'')]),
               ProviderConnect, ProviderEnable]\<rparr>"
  by (simp add: connected_relay_state_def connect_def connect_body_def getChainId_def
        isChainUnsupported_def setupListeners_def removeListeners_def setRequestedChainsIds_def
        connector_listeners_def emitter_on_def emitter_removeListener_def provider_init_args_def
        acquire_defs call_defs io_defs browser_state_eq demo_world_def demo_relay_def
        ronin_chain_def empty_store_def)

lemma reloaded_state_eq:
  "reloaded_state =
     \<lparr>window = Some \<lparr>ronin = None\<rparr>, isExtension = False, provider = None,
      provider_listeners = [], initProviderPromise = Some Importing,
      storage = Some \<lparr>shimDisconnect_item = True, requestedChains_item = Some [2020]\<rparr>,
      trace = [DynamicImport]\<rparr>"
  by (simp add: reloaded_state_def constructor_def createProvider_call_def)

lemma no_matching_key_tests:
  "regex_test_ci ''No matching key'' (Some ''No matching key. session topic does not exist'')"
  "\<not> regex_test_ci ''No matching key'' (Some ''WebSocket connection closed'')"
  by code_simp+

lemma getProvider_connected_extension:
  "getProvider demo_world None connected_extension_state
     = (Inr InjectedProvider, connected_extension_state)"
  by (simp add: acquire_defs io_defs connected_extension_state_eq)

lemma getProvider_connected_relay:
  "getProvider (demo_world\<lparr>relay_disconnect := d\<rparr>) None connected_relay_state
     = (Inr RelayProvider, connected_relay_state)"
  by (simp add: acquire_defs io_defs connected_relay_state_eq)

lemma getProvider_reloaded_fails:
  "getProvider failing_world None reloaded_state =
     (Inl (Error ''Loading chunk failed.''),
      reloaded_state\<lparr>initProviderPromise := Some (Rejected (Error ''Loading chunk failed.''))\<rparr>)"
  by (simp add: acquire_defs io_defs reloaded_state_eq failing_world_def)

theorem disconnect_cleanup_witness:
  "getProvider demo_world None connected_extension_state
     = (Inr InjectedProvider, connected_extension_state)
   \<and> isExtension connected_extension_state
   \<and> storage_getShim connected_extension_state
   \<and> fst (disconnect demo_world connected_extension_state) = Inr ()
   \<and> getRequestedChainsIds (snd (disconnect demo_world connected_extension_state)) = []
   \<and> \<not> storage_getShim (snd (disconnect demo_world connected_extension_state))
   \<and> \<not> native_registered (snd (disconnect demo_world connected_extension_state))
          (''accountsChanged'', OnAccountsChanged)
   \<and> getProvider failing_world None reloaded_state =
       (Inl (Error ''Loading chunk failed.''),
        reloaded_state\<lparr>initProviderPromise := Some (Rejected (Error ''Loading chunk failed.''))\<rparr>)
   \<and> disconnect failing_world reloaded_state =
       (Inl (Error ''Loading chunk failed.''),
        reloaded_state\<lparr>initProviderPromise := Some (Rejected (Error ''Loading chunk failed.''))\<rparr>)"
proof -
  have ok: "fst (disconnect demo_world connected_extension_state) = Inr ()
      \<and> getRequestedChainsIds (snd (disconnect demo_world connected_extension_state)) = []
      \<and> \<not> storage_getShim (snd (disconnect demo_world connected_extension_state))
      \<and> \<not> native_registered (snd (disconnect demo_world connected_extension_state))
             (''accountsChanged'', OnAccountsChanged)"
    using disconnect_cleanup
            [of demo_world connected_extension_state _ connected_extension_state InjectedProvider]
      getProvider_connected_extension
    by (simp add: connected_extension_state_eq demo_world_def native_listeners_def)
  have failed: "disconnect failing_world reloaded_state =
       (Inl (Error ''Loading chunk failed.''),
        reloaded_state\<lparr>initProviderPromise := Some (Rejected (Error ''Loading chunk failed.''))\<rparr>)"
    using disconnect_cleanup
            [of failing_world reloaded_state "Error ''Loading chunk failed.''"
                "reloaded_state\<lparr>initProviderPromise :=
                   Some (Rejected (Error ''Loading chunk failed.''))\<rparr>"]
      getProvider_reloaded_fails
    by blast
  show ?thesis
    using ok failed getProvider_connected_extension getProvider_reloaded_fails
    by (simp add: connected_extension_state_eq storage_getShim_def)
qed

text \<open>
  The claim as stated fails twice on a connector constructed after a page reload, without
  the extension, with the shim flag and the requested chains still stored. When the relay
  provider cannot be initialised, \<^verbatim>\<open>disconnect\<close> rejects before its \<^verbatim>\<open>try\<close> and the
  requested chains stay as they were. When the relay disconnect succeeds, the shim flag is
  still stored afterwards.
\<close>

theorem disconnect_cleanup_counterexample:
  "fst (disconnect failing_world reloaded_state) = Inl (Error ''Loading chunk failed.'')
   \<and> getRequestedChainsIds (snd (disconnect failing_world reloaded_state)) = [2020]
   \<and> storage_getShim reloaded_state
   \<and> fst (disconnect demo_world reloaded_state) = Inr ()
   \<and> storage_getShim (snd (disconnect demo_world reloaded_state))"
proof -
  have a: "disconnect failing_world reloaded_state =
             (Inl (Error ''Loading chunk failed.''),
              reloaded_state\<lparr>initProviderPromise := Some (Rejected (Error ''Loading chunk failed.''))\<rparr>)"
    by (simp add: disconnect_def acquire_defs io_defs reloaded_state_eq failing_world_def)
  have g: "getProvider demo_world None reloaded_state =
             (Inr RelayProvider,
              reloaded_state\<lparr>provider := Some demo_relay, initProviderPromise := Some Fulfilled,
                trace := [DynamicImport,
                          EthereumProviderInit (provider_init_args demo_world 2020 [])]\<rparr>)"
    by (simp add: acquire_defs io_defs reloaded_state_eq demo_world_def ronin_chain_def)
  have b: "disconnect_body demo_world RelayProvider
             (reloaded_state\<lparr>provider := Some demo_relay, initProviderPromise := Some Fulfilled,
                trace := [DynamicImport,
                          EthereumProviderInit (provider_init_args demo_world 2020 [])]\<rparr>)
           = (Inr (),
              reloaded_state\<lparr>provider := Some (demo_relay\<lparr>session := None, accounts := []\<rparr>),
                initProviderPromise := Some Fulfilled,
                trace := [DynamicImport,
                          EthereumProviderInit (provider_init_args demo_world 2020 []),
                          ProviderDisconnect,
                          Emit ''change'' (JObj [(''account'', JUndefined)]),
                          Emit ''disconnect'' JUndefined]\<rparr>)"
    by (simp add: disconnect_body_def relay_call_def io_defs reloaded_state_eq demo_world_def)
  show ?thesis
    unfolding a disconnect_unfold [OF g b]
    by (simp add: disconnect_finally_eq getRequestedChainsIds_def storage_getShim_def
          reloaded_state_eq)
qed

text \<open>
  C6. On the Relay transport, when the provider's own \<^verbatim>\<open>disconnect\<close> throws \<open>e\<close>:
  \<^verbatim>\<open>disconnect\<close> resolves when the message of \<open>e\<close> matches ``No matching key'' (letters
  compared without case) and rejects with \<open>e\<close> itself otherwise; either way the
  \<^verbatim>\<open>finally\<close> block has run: one registration of each of the six relay listeners is
  removed and the requested-chains record is empty. No \<^verbatim>\<open>change\<close> or \<^verbatim>\<open>disconnect\<close>
  event is emitted: the only effect is the call of the provider's \<^verbatim>\<open>disconnect\<close>.
\<close>

theorem disconnect_relay_error:
  assumes "getProvider w None s = (Inr RelayProvider, s1)"
    and "provider s1 = Some rl"
    and "relay_disconnect w rl = Inl e"
  shows "fst (disconnect w s) =
           (if regex_test_ci ''No matching key'' (message w e) then Inr () else Inl e)
         \<and> getRequestedChainsIds (snd (disconnect w s)) = []
         \<and> (\<forall>x\<in>set connector_listeners.
               count_list (provider_listeners (snd (disconnect w s))) x
                 = count_list (provider_listeners s) x - 1)
         \<and> trace (snd (disconnect w s)) = trace s1 @ [ProviderDisconnect]"
proof -
  note g = getProvider_facts [OF assms(1)]
  have ext: "\<not> isExtension s1" using g by simp
  have body: "disconnect_body w RelayProvider s1 = (Inl e, s1\<lparr>trace := trace s1 @ [ProviderDisconnect]\<rparr>)"
    using ext assms(2,3) by (simp add: disconnect_body_def relay_call_def io_defs)
  note d = disconnect_unfold [OF assms(1) body]
  show ?thesis
    using g assms(2)
    by (simp add: d disconnect_finally_eq count_list_removed getRequestedChainsIds_def
             split: option.splits)
qed

theorem disconnect_relay_error_witness:
  "getProvider no_key_world None connected_relay_state = (Inr RelayProvider, connected_relay_state)
   \<and> relay_disconnect no_key_world
        \<lparr>session = Some \<lparr>namespaces = None\<rparr>, accounts = [''0xabc''], relay_chainId = 2020\<rparr>
       = Inl (Error ''No matching key. session topic does not exist'')
   \<and> fst (disconnect no_key_world connected_relay_state) = Inr ()
   \<and> getRequestedChainsIds (snd (disconnect no_key_world connected_relay_state)) = []
   \<and> provider_listeners (snd (disconnect no_key_world connected_relay_state)) = []
   \<and> fst (disconnect broken_relay_world connected_relay_state)
       = Inl (Error ''WebSocket connection closed'')
   \<and> getRequestedChainsIds (snd (disconnect broken_relay_world connected_relay_state)) = []
   \<and> provider_listeners (snd (disconnect broken_relay_world connected_relay_state)) = []"
proof -
  let ?r = "\<lparr>session = Some \<lparr>namespaces = None\<rparr>, accounts = [''0xabc''], relay_chainId = 2020\<rparr>"
  have g1: "getProvider no_key_world None connected_relay_state
              = (Inr RelayProvider, connected_relay_state)"
    unfolding no_key_world_def by (rule getProvider_connected_relay)
  have g2: "getProvider broken_relay_world None connected_relay_state
              = (Inr RelayProvider, connected_relay_state)"
    unfolding broken_relay_world_def by (rule getProvider_connected_relay)
  have p: "provider connected_relay_state = Some ?r"
    by (simp add: connected_relay_state_eq)
  have d1: "relay_disconnect no_key_world ?r
              = Inl (Error ''No matching key. session topic does not exist'')"
    by (simp add: no_key_world_def)
  have d2: "relay_disconnect broken_relay_world ?r = Inl (Error ''WebSocket connection closed'')"
    by (simp add: broken_relay_world_def)
  have b1: "disconnect_body no_key_world RelayProvider connected_relay_state
              = (Inl (Error ''No matching key. session topic does not exist''),
                 connected_relay_state\<lparr>trace := trace connected_relay_state @ [ProviderDisconnect]\<rparr>)"
    using p d1 by (simp add: disconnect_body_def relay_call_def io_defs connected_relay_state_eq)
  have b2: "disconnect_body broken_relay_world RelayProvider connected_relay_state
              = (Inl (Error ''WebSocket connection closed''),
                 connected_relay_state\<lparr>trace := trace connected_relay_state @ [ProviderDisconnect]\<rparr>)"
    using p d2 by (simp add: disconnect_body_def relay_call_def io_defs connected_relay_state_eq)
  have l1: "provider_listeners (snd (disconnect no_key_world connected_relay_state)) = []"
    unfolding disconnect_unfold [OF g1 b1]
    by (simp add: disconnect_finally_eq connected_relay_state_eq
          connector_listeners_def emitter_removeListener_def)
  have l2: "provider_listeners (snd (disconnect broken_relay_world connected_relay_state)) = []"
    unfolding disconnect_unfold [OF g2 b2]
    by (simp add: disconnect_finally_eq connected_relay_state_eq
          connector_listeners_def emitter_removeListener_def)
  show ?thesis
    using disconnect_relay_error [OF g1 p d1] disconnect_relay_error [OF g2 p d2] g1 d1 l1 l2
    by (simp add: no_matching_key_tests)
qed

subsection \<open>One initialisation of the relay provider\<close>

lemma createProvider_call_stored:
  assumes "initProviderPromise s \<noteq> None"
  shows "createProvider_call s = (Inr (initProviderPromise s), s)"
  using assms by (simp add: createProvider_call_def)

lemma initProvider_imported_importing:
  assumes "initProviderPromise s = Some Importing"
  shows "initProviderPromise (initProvider_imported w s) \<noteq> None
         \<and> initProviderPromise (initProvider_imported w s) \<noteq> Some Importing
         \<and> initialisations (initProvider_imported w s) = initialisations s
         \<and> constructions (initProvider_imported w s)
             = constructions s + (if reaches_init w then 1 else 0)"
  using assms
  by (auto simp: initProvider_imported_def reaches_init_def initialisations_def
        constructions_def split: option.splits list.splits)

lemma initProvider_imported_later:
  assumes "initProviderPromise s \<noteq> Some Importing"
  shows "initProvider_imported w s = s"
  using assms by (simp add: initProvider_imported_def)

lemma initProvider_initialized_facts:
  "initialisations (initProvider_initialized w s) = initialisations s
   \<and> constructions (initProvider_initialized w s) = constructions s
   \<and> (initProviderPromise (initProvider_initialized w s) = Some Importing
        \<longleftrightarrow> initProviderPromise s = Some Importing)
   \<and> (initProviderPromise (initProvider_initialized w s) = None
        \<longleftrightarrow> initProviderPromise s = None)"
  by (auto simp: initProvider_initialized_def initialisations_def constructions_def
           split: option.splits promise.splits sum.splits)

lemma run_events_snoc:
  "run_events w (evs @ [ev]) s = run_event w ev (run_events w evs s)"
  by (simp add: run_events_def)

lemma run_events_pending:
  assumes "initProviderPromise s0 = Some Importing"
  shows "initialisations (run_events w evs s0) = initialisations s0
         \<and> initProviderPromise (run_events w evs s0) \<noteq> None
         \<and> (if ImportSettled \<in> set evs
             then initProviderPromise (run_events w evs s0) \<noteq> Some Importing
                  \<and> constructions (run_events w evs s0)
                      = constructions s0 + (if reaches_init w then 1 else 0)
             else initProviderPromise (run_events w evs s0) = Some Importing
                  \<and> constructions (run_events w evs s0) = constructions s0)"
proof (induction evs rule: rev_induct)
  case Nil
  then show ?case using assms by (simp add: run_events_def)
next
  case (snoc ev evs)
  let ?s = "run_events w evs s0"
  from snoc have ih1: "initialisations ?s = initialisations s0"
    and ih2: "initProviderPromise ?s \<noteq> None" by simp_all
  show ?case
  proof (cases ev)
    case CallCreateProvider
    then show ?thesis
      using snoc ih2 by (simp add: run_events_snoc createProvider_call_stored)
  next
    case InitSettled
    then show ?thesis
      using snoc initProvider_initialized_facts [of w ?s]
      by (simp add: run_events_snoc)
  next
    case ImportSettled
    show ?thesis
    proof (cases "ImportSettled \<in> set evs")
      case True
      with snoc have "initProviderPromise ?s \<noteq> Some Importing" by simp
      then show ?thesis
        using snoc True ImportSettled
        by (simp add: run_events_snoc initProvider_imported_later)
    next
      case False
      with snoc have "initProviderPromise ?s = Some Importing"
        and "constructions ?s = constructions s0" by simp_all
      then show ?thesis
        using ih1 ImportSettled initProvider_imported_importing [of ?s w]
        by (simp add: run_events_snoc)
    qed
  qed
qed

text \<open>
  C4, as the code has it. In a browser, the first call of \<^verbatim>\<open>#createProvider\<close> on a
  connector without a stored promise starts one run of \<^verbatim>\<open>#initProvider\<close> and stores its
  pending promise. From then on, through any schedule of further calls and of the import
  and \<^verbatim>\<open>EthereumProvider.init\<close> settling, every call returns the stored promise and
  changes nothing, so exactly one initialisation has been started. That one run
  constructs at most one relay provider: exactly one once the import has settled, when it
  resolved and the first configured chain id is not zero; none before that, and none at all
  when the import fails, no chain is configured, or the first chain id is zero.
\<close>

theorem createProvider_single_initialisation:
  assumes "initProviderPromise s = None" "window s \<noteq> None"
  shows "createProvider_call s =
           (Inr (Some Importing),
            s\<lparr>initProviderPromise := Some Importing, trace := trace s @ [DynamicImport]\<rparr>)
         \<and> (\<forall>evs.
              initProviderPromise (run_events w evs (snd (createProvider_call s))) \<noteq> None
              \<and> createProvider_call (run_events w evs (snd (createProvider_call s)))
                  = (Inr (initProviderPromise (run_events w evs (snd (createProvider_call s)))),
                     run_events w evs (snd (createProvider_call s)))
              \<and> initialisations (run_events w evs (snd (createProvider_call s)))
                  = initialisations s + 1
              \<and> constructions (run_events w evs (snd (createProvider_call s)))
                  = constructions s
                    + (if ImportSettled \<in> set evs \<and> reaches_init w then 1 else 0))"
proof -
  let ?s0 = "s\<lparr>initProviderPromise := Some Importing, trace := trace s @ [DynamicImport]\<rparr>"
  have first: "createProvider_call s = (Inr (Some Importing), ?s0)"
    using assms by (simp add: createProvider_call_def)
  have pending: "initProviderPromise ?s0 = Some Importing" by simp
  have i0: "initialisations ?s0 = initialisations s + 1"
    by (simp add: initialisations_def)
  have c0: "constructions ?s0 = constructions s"
    by (simp add: constructions_def)
  have "initProviderPromise (run_events w evs ?s0) \<noteq> None
        \<and> createProvider_call (run_events w evs ?s0)
            = (Inr (initProviderPromise (run_events w evs ?s0)), run_events w evs ?s0)
        \<and> initialisations (run_events w evs ?s0) = initialisations s + 1
        \<and> constructions (run_events w evs ?s0)
            = constructions s + (if ImportSettled \<in> set evs \<and> reaches_init w then 1 else 0)"
    for evs
    using run_events_pending [OF pending, of w evs] i0 c0
    by (auto simp: createProvider_call_stored split: if_splits)
  then show ?thesis
    unfolding first by simp
qed

lemma reaches_init_demo_world: "reaches_init demo_world"
  by (simp add: reaches_init_def demo_world_def ronin_chain_def)

lemma createProvider_call_fresh: "createProvider_call fresh_state = (Inr (Some Importing), browser_state)"
  by (simp add: createProvider_call_def fresh_state_def browser_state_eq)

theorem createProvider_single_initialisation_witness:
  "initProviderPromise fresh_state = None
   \<and> window fresh_state \<noteq> None
   \<and> createProvider_call fresh_state = (Inr (Some Importing), browser_state)
   \<and> initialisations
        (run_events demo_world
           [CallCreateProvider, CallCreateProvider, ImportSettled, CallCreateProvider,
            InitSettled, CallCreateProvider] browser_state) = 1
   \<and> constructions
        (run_events demo_world
           [CallCreateProvider, CallCreateProvider, ImportSettled, CallCreateProvider,
            InitSettled, CallCreateProvider] browser_state) = 1
   \<and> constructions
        (run_events demo_world [CallCreateProvider, CallCreateProvider] browser_state) = 0"
proof -
  have h1: "initProviderPromise fresh_state = None" and h2: "window fresh_state \<noteq> None"
    by (simp_all add: fresh_state_def)
  have i: "initialisations fresh_state = 0" and c: "constructions fresh_state = 0"
    by (simp_all add: fresh_state_def initialisations_def constructions_def)
  note t = createProvider_single_initialisation [OF h1 h2, of demo_world, THEN conjunct2]
  show ?thesis
    using h1 h2
      t [THEN spec, of "[CallCreateProvider, CallCreateProvider, ImportSettled,
                         CallCreateProvider, InitSettled, CallCreateProvider]"]
      t [THEN spec, of "[CallCreateProvider, CallCreateProvider]"]
    by (simp add: createProvider_call_fresh reaches_init_demo_world i c)
qed

text \<open>
  The claim as stated fails for a connector whose host configures no chain: after three
  calls of the initialiser, with the import and the initialisation run completed, no relay
  provider has been constructed.
\<close>

theorem createProvider_no_construction_counterexample:
  "constructions
     (run_events unconfigured_world
        [CallCreateProvider, CallCreateProvider, ImportSettled, InitSettled, CallCreateProvider]
        (constructor unconfigured_world (Some \<lparr>ronin = None\<rparr>) (Some empty_store))) = 0
   \<and> provider
       (run_events unconfigured_world
          [CallCreateProvider, CallCreateProvider, ImportSettled, InitSettled, CallCreateProvider]
          (constructor unconfigured_world (Some \<lparr>ronin = None\<rparr>) (Some empty_store))) = None
   \<and> initProviderPromise
       (run_events unconfigured_world
          [CallCreateProvider, CallCreateProvider, ImportSettled, InitSettled, CallCreateProvider]
          (constructor unconfigured_world (Some \<lparr>ronin = None\<rparr>) (Some empty_store)))
       = Some Fulfilled"
  by (simp add: run_events_def constructor_def createProvider_call_def initProvider_imported_def
        initProvider_initialized_def constructions_def unconfigured_world_def demo_world_def)

subsection \<open>What construction starts\<close>

text \<open>
  C8, as the code has it. When the constructor returns, \<^verbatim>\<open>#provider\<close> is unset and
  \<^verbatim>\<open>EthereumProvider.init\<close> has not been called. But in a browser without the injected
  wallet the constructor itself calls \<^verbatim>\<open>#createProvider\<close>: the import is requested and the
  pending promise stored, and when the import and the initialisation settle the relay
  provider is created (if \<^verbatim>\<open>#initProvider\<close> reaches \<^verbatim>\<open>EthereumProvider.init\<close> and that
  succeeds), without any call of \<^verbatim>\<open>getProvider\<close> or \<^verbatim>\<open>connect\<close>. With the injected wallet
  present, or without \<^verbatim>\<open>window\<close>, construction starts nothing and no settling event
  changes the connector.
\<close>

theorem constructor_starts_initialisation:
  "provider (constructor w win st) = None
   \<and> constructions (constructor w win st) = 0
   \<and> (\<not> browser_without_extension win \<longrightarrow>
        initProviderPromise (constructor w win st) = None
        \<and> trace (constructor w win st) = []
        \<and> (\<forall>evs. CallCreateProvider \<notin> set evs \<longrightarrow>
              run_events w evs (constructor w win st) = constructor w win st))
   \<and> (browser_without_extension win \<longrightarrow>
        initProviderPromise (constructor w win st) = Some Importing
        \<and> trace (constructor w win st) = [DynamicImport]
        \<and> (reaches_init w \<longrightarrow>
             constructions (run_events w [ImportSettled, InitSettled] (constructor w win st)) = 1
             \<and> provider (run_events w [ImportSettled, InitSettled] (constructor w win st))
                 = (case EthereumProvider_init w
                           (provider_init_args w (chain_id (hd (chains_cfg w)))
                              (map chain_id (tl (chains_cfg w)))) of
                      Inl _ \<Rightarrow> None
                    | Inr r \<Rightarrow> Some r)))"
proof (intro conjI impI)
  show "provider (constructor w win st) = None"
    by (simp add: constructor_def createProvider_call_def Let_def)
  show "constructions (constructor w win st) = 0"
    by (simp add: constructor_def createProvider_call_def constructions_def Let_def)
next
  assume a: "\<not> browser_without_extension win"
  have c: "constructor w win st =
             \<lparr>window = win, isExtension = (win \<noteq> None), provider = None,
              provider_listeners = [], initProviderPromise = None, storage = st, trace = []\<rparr>"
    using a
    by (cases win)
       (auto simp: constructor_def createProvider_call_def browser_without_extension_def Let_def)
  show "initProviderPromise (constructor w win st) = None" by (simp add: c)
  show "trace (constructor w win st) = []" by (simp add: c)
  have stay: "run_event w ev s = s" if "ev \<noteq> CallCreateProvider" "initProviderPromise s = None"
    for ev s
    using that
    by (cases ev) (simp_all add: initProvider_imported_def initProvider_initialized_def)
  have "run_events w evs s = s"
    if "CallCreateProvider \<notin> set evs" "initProviderPromise s = None" for evs s
    using that
  proof (induction evs)
    case Nil
    then show ?case by (simp add: run_events_def)
  next
    case (Cons ev evs)
    then have "run_event w ev s = s" by (intro stay) auto
    with Cons show ?case by (simp add: run_events_def)
  qed
  then show "\<forall>evs. CallCreateProvider \<notin> set evs \<longrightarrow>
               run_events w evs (constructor w win st) = constructor w win st"
    by (simp add: c)
next
  assume a: "browser_without_extension win"
  have c: "constructor w win st =
             \<lparr>window = win, isExtension = False, provider = None,
              provider_listeners = [], initProviderPromise = Some Importing, storage = st,
              trace = [DynamicImport]\<rparr>"
    using a
    by (cases win)
       (auto simp: constructor_def createProvider_call_def browser_without_extension_def Let_def)
  show "initProviderPromise (constructor w win st) = Some Importing" by (simp add: c)
  show "trace (constructor w win st) = [DynamicImport]" by (simp add: c)
  assume r: "reaches_init w"
  then obtain d ds where ch: "chains_cfg w = d # ds" and d: "chain_id d \<noteq> 0"
    and imp: "import_failure w = None"
    by (auto simp: reaches_init_def split: list.splits)
  show "constructions (run_events w [ImportSettled, InitSettled] (constructor w win st)) = 1"
    using ch d imp
    by (simp add: c run_events_def initProvider_imported_def initProvider_initialized_def
          constructions_def split: sum.splits)
  show "provider (run_events w [ImportSettled, InitSettled] (constructor w win st))
          = (case EthereumProvider_init w
                    (provider_init_args w (chain_id (hd (chains_cfg w)))
                       (map chain_id (tl (chains_cfg w)))) of
               Inl _ \<Rightarrow> None
             | Inr r \<Rightarrow> Some r)"
    using ch d imp
    by (simp add: c run_events_def initProvider_imported_def initProvider_initialized_def
          split: sum.splits)
qed

lemma demo_world_init: "EthereumProvider_init demo_world a = Inr demo_relay"
  by (simp add: demo_world_def)

theorem constructor_starts_initialisation_witness:
  "reaches_init demo_world
   \<and> browser_without_extension (Some \<lparr>ronin = None\<rparr>)
   \<and> provider (constructor demo_world (Some \<lparr>ronin = None\<rparr>) (Some empty_store)) = None
   \<and> initProviderPromise (constructor demo_world (Some \<lparr>ronin = None\<rparr>) (Some empty_store))
       = Some Importing
   \<and> provider (run_events demo_world [ImportSettled, InitSettled]
                 (constructor demo_world (Some \<lparr>ronin = None\<rparr>) (Some empty_store)))
       = Some demo_relay
   \<and> initProviderPromise
        (constructor demo_world (Some \<lparr>ronin = Some \<lparr>provider_on = False, roninEvent = []\<rparr>\<rparr>)
           (Some empty_store)) = None
   \<and> initProviderPromise (constructor demo_world None (Some empty_store)) = None"
  using constructor_starts_initialisation
          [of demo_world "Some \<lparr>ronin = None\<rparr>" "Some empty_store"]
        constructor_starts_initialisation
          [of demo_world "Some \<lparr>ronin = Some \<lparr>provider_on = False, roninEvent = []\<rparr>\<rparr>"
              "Some empty_store"]
        constructor_starts_initialisation [of demo_world None "Some empty_store"]
  by (simp add: reaches_init_demo_world demo_world_init browser_without_extension_def)

text \<open>
  The claim as stated fails: in a browser without the extension the constructor alone
  requests the import and stores the pending promise, and once the import and
  \<^verbatim>\<open>EthereumProvider.init\<close> have settled the relay provider exists, though neither
  \<^verbatim>\<open>getProvider\<close> nor \<^verbatim>\<open>connect\<close> was ever called.
\<close>

theorem constructor_creates_provider_counterexample:
  "trace (constructor demo_world (Some \<lparr>ronin = None\<rparr>) (Some empty_store)) = [DynamicImport]
   \<and> initProviderPromise (constructor demo_world (Some \<lparr>ronin = None\<rparr>) (Some empty_store))
       = Some Importing
   \<and> provider (run_events demo_world [ImportSettled, InitSettled]
                 (constructor demo_world (Some \<lparr>ronin = None\<rparr>) (Some empty_store)))
       = Some demo_relay
   \<and> constructions (run_events demo_world [ImportSettled, InitSettled]
                      (constructor demo_world (Some \<lparr>ronin = None\<rparr>) (Some empty_store))) = 1"
  by (simp add: run_events_def constructor_def createProvider_call_def initProvider_imported_def
        initProvider_initialized_def constructions_def demo_world_def ronin_chain_def)

subsection \<open>Acquiring a provider for a chain\<close>

lemma getProvider_chain_unfold:
  assumes "window s = Some wo" "ronin wo = None" "c \<noteq> 0"
  shows "getProvider w (Some c) s =
           (case getProvider w None s of
              (Inl e, s1) \<Rightarrow> (Inl e, s1)
            | (Inr _, s1) \<Rightarrow>
                (case switchChain w c s1 of
                   (Inl e, s2) \<Rightarrow> (Inl e, s2)
                 | (Inr _, s2) \<Rightarrow>
                     (Inr (case provider s2 of None \<Rightarrow> NoProvider | Some _ \<Rightarrow> RelayProvider), s2)))"
  using assms
  by (simp add: getProvider_def getProvider_with_def io_defs
           split: prod.splits sum.splits option.splits)

lemma browser_window: "window browser_state = Some \<lparr>ronin = None\<rparr>"
  by (simp add: browser_state_eq)

lemma fst_switch_outcome:
  "fst (case m of (Inl e, s2) \<Rightarrow> (Inl e, s2) | (Inr x, s2) \<Rightarrow> (Inr (f s2), s2))
     = (case fst m of Inl e \<Rightarrow> Inl e | Inr _ \<Rightarrow> Inr (f (snd m)))"
  by (cases m) (auto split: sum.splits)

lemma snd_switch_outcome:
  "snd (case m of (Inl e, s2) \<Rightarrow> (Inl e, s2) | (Inr x, s2) \<Rightarrow> (Inr (f s2), s2)) = snd m"
  by (cases m) (auto split: sum.splits)

lemma no_ronin: "ronin \<lparr>ronin = None\<rparr> = None"
  by simp

lemma getProvider_browser:
  "getProvider (demo_world\<lparr>rpc_wallet := a\<rparr>) None browser_state =
     (Inr RelayProvider,
      browser_state\<lparr>provider := Some demo_relay, initProviderPromise := Some Fulfilled,
        trace := [DynamicImport,
                  EthereumProviderInit (provider_init_args demo_world 2020 [])]\<rparr>)"
  by (simp add: acquire_defs io_defs browser_state_eq demo_world_def ronin_chain_def
        provider_init_args_def)

lemma getProvider_unknown_chain:
  "fst (getProvider demo_world (Some 1) browser_state)
     = Inl (SwitchChainError (Error ''chain not found on connector.''))"
proof -
  have g: "getProvider demo_world None browser_state =
     (Inr RelayProvider,
      browser_state\<lparr>provider := Some demo_relay, initProviderPromise := Some Fulfilled,
        trace := [DynamicImport,
                  EthereumProviderInit (provider_init_args demo_world 2020 [])]\<rparr>)"
    using getProvider_browser [of "rpc_wallet demo_world"] by simp
  have s: "switchChain demo_world 1 s = (Inl (SwitchChainError (Error ''chain not found on connector.'')), s)"
    for s
    by (simp add: switchChain_def io_throw_def demo_world_def ronin_chain_def)
  show ?thesis
    unfolding getProvider_chain_unfold [OF browser_window no_ronin, of 1 demo_world, simplified] g
    by (simp add: s)
qed

lemma switchChain_wallet_fails:
  assumes "rpc_wallet w RelayProvider (Wallet_switchEthereumChain ''0x7e4'') = Some e"
    and "chains_cfg w = [ronin_chain]" "numberToHex w 2020 = Inr ''0x7e4''"
    and "provider s = Some demo_relay" "window s = Some \<lparr>ronin = None\<rparr>"
  shows "fst (switchChain w 2020 s) =
           Inl (if regex_test_ci ''user rejected request'' (thrown_text w e)
                then UserRejectedRequestError e else SwitchChainError e)"
  using assms
  by (simp add: switchChain_def switchChain_body_def getProvider_plain_def getProvider_with_def
        getNamespaceChainsIds_def getNamespaceMethods_def request_wallet_def demo_relay_def
        ronin_chain_def io_defs)

lemma getProvider_user_rejected:
  "fst (getProvider declining_world (Some 2020) browser_state)
     = Inl (UserRejectedRequestError (Error ''User rejected request''))"
proof -
  have g: "getProvider declining_world None browser_state =
     (Inr RelayProvider,
      browser_state\<lparr>provider := Some demo_relay, initProviderPromise := Some Fulfilled,
        trace := [DynamicImport,
                  EthereumProviderInit (provider_init_args demo_world 2020 [])]\<rparr>)"
    unfolding declining_world_def by (rule getProvider_browser)
  have t: "regex_test_ci ''user rejected request'' (Some ''User rejected request'')"
    by code_simp
  have s: "fst (switchChain declining_world 2020
                 (browser_state\<lparr>provider := Some demo_relay, initProviderPromise := Some Fulfilled,
                    trace := [DynamicImport,
                              EthereumProviderInit (provider_init_args demo_world 2020 [])]\<rparr>))
             = Inl (UserRejectedRequestError (Error ''User rejected request''))"
    using switchChain_wallet_fails [of declining_world "Error ''User rejected request''"]
    by (simp add: declining_world_def demo_world_def browser_state_eq thrown_text_def t)
  show ?thesis
    unfolding getProvider_chain_unfold [OF browser_window no_ronin, of 2020 declining_world, simplified] g
    by (simp add: fst_switch_outcome snd_switch_outcome s)
qed

lemma getProvider_switch_failed:
  "fst (getProvider rejecting_world (Some 2020) browser_state)
     = Inl (SwitchChainError (Error ''User rejected the request.''))"
proof -
  have g: "getProvider rejecting_world None browser_state =
     (Inr RelayProvider,
      browser_state\<lparr>provider := Some demo_relay, initProviderPromise := Some Fulfilled,
        trace := [DynamicImport,
                  EthereumProviderInit (provider_init_args demo_world 2020 [])]\<rparr>)"
    by (simp add: acquire_defs io_defs browser_state_eq rejecting_world_def demo_world_def
          ronin_chain_def provider_init_args_def)
  have s: "fst (switchChain rejecting_world 2020
                 (browser_state\<lparr>provider := Some demo_relay, initProviderPromise := Some Fulfilled,
                    trace := [DynamicImport,
                              EthereumProviderInit (provider_init_args demo_world 2020 [])]\<rparr>))
             = Inl (SwitchChainError (Error ''User rejected the request.''))"
    using switchChain_wallet_fails [of rejecting_world "Error ''User rejected the request.''"]
    by (simp add: rejecting_world_def demo_world_def browser_state_eq thrown_text_def
          rejected_message_tests)
  show ?thesis
    unfolding getProvider_chain_unfold [OF browser_window no_ronin, of 2020 rejecting_world, simplified] g
    by (simp add: fst_switch_outcome snd_switch_outcome s)
qed

lemma session_state_eq:
  "session_state =
     \<lparr>window = Some \<lparr>ronin = None\<rparr>, isExtension = False,
      provider =
        Some \<lparr>session =
                 Some \<lparr>namespaces =
                         Some [(''eip155'',
                                \<lparr>ns_chains = Some [''eip155:2021''],
                                 ns_methods = Some [''eth_sendTransaction'',
                                                    ''wallet_addEthereumChain'']\<rparr>)]\<rparr>,
               accounts = [''0xabc''], relay_chainId = 2020\<rparr>,
      provider_listeners = connector_listeners,
      initProviderPromise = Some Fulfilled,
      storage = Some \<lparr>shimDisconnect_item = False, requestedChains_item = Some [2020]\<rparr>,
      trace = [DynamicImport,
               EthereumProviderInit (provider_init_args demo_world 2020 []),
               Emit ''message'' (JObj [(''type'', JStr ''connecting'')]),
               ProviderConnect, ProviderEnable]\<rparr>"
  by (simp add: session_state_def session_world_def connect_def connect_body_def getChainId_def
        isChainUnsupported_def setupListeners_def removeListeners_def setRequestedChainsIds_def
        connector_listeners_def emitter_on_def emitter_removeListener_def provider_init_args_def
        acquire_defs call_defs io_defs browser_state_eq demo_world_def demo_relay_def
        ronin_chain_def empty_store_def)

lemma getProvider_issues_requests:
  "trace (snd (getProvider session_world (Some 2020) session_state)) =
     trace session_state
       @ [Request RelayProvider
            (Wallet_addEthereumChain
               \<lparr>param_chainId = ''0x7e4'',
                blockExplorerUrls = [''https://app.roninchain.com/''],
                chainName = ''Ronin mainnet'',
                param_nativeCurrency = \<lparr>currency_name = ''RON'', symbol = ''RON'', decimals = 18\<rparr>,
                rpcUrls = [''https://api.roninchain.com/rpc'']\<rparr>),
          Request RelayProvider (Wallet_switchEthereumChain ''0x7e4'')]"
proof -
  have w: "window session_state = Some \<lparr>ronin = None\<rparr>"
    by (simp add: session_state_eq)
  have g: "getProvider session_world None session_state = (Inr RelayProvider, session_state)"
    by (simp add: acquire_defs io_defs session_state_eq)
  have s: "trace (snd (switchChain session_world 2020 session_state)) =
     trace session_state
       @ [Request RelayProvider
            (Wallet_addEthereumChain
               \<lparr>param_chainId = ''0x7e4'',
                blockExplorerUrls = [''https://app.roninchain.com/''],
                chainName = ''Ronin mainnet'',
                param_nativeCurrency = \<lparr>currency_name = ''RON'', symbol = ''RON'', decimals = 18\<rparr>,
                rpcUrls = [''https://api.roninchain.com/rpc'']\<rparr>),
          Request RelayProvider (Wallet_switchEthereumChain ''0x7e4'')]"
    by (simp add: switchChain_def switchChain_body_def getProvider_plain_def getProvider_with_def
          getNamespaceChainsIds_def getNamespaceMethods_def request_wallet_def
          readRequestedChainsIds_def storage_getItem_def setRequestedChainsIds_def
          split_second_def
          NAMESPACE_def ADD_ETH_CHAIN_METHOD_def
          io_defs session_state_eq session_world_def demo_world_def ronin_chain_def)
  show ?thesis
    unfolding getProvider_chain_unfold [OF w no_ronin, of 2020 session_world, simplified] g
    by (simp add: fst_switch_outcome snd_switch_outcome s)
qed

text \<open>
  C10, as the code has it. While no injected wallet object is present,
  \<^verbatim>\<open>getProvider({chainId})\<close> with a chain id that is not zero is \<^verbatim>\<open>getProvider()\<close>
  followed by \<^verbatim>\<open>switchChain(chainId)\<close>: when the acquisition succeeds \<^verbatim>\<open>switchChain\<close> is
  invoked, its rejection is the rejection of the call, and only after it has returned is
  \<^verbatim>\<open>this.#provider\<close> handed back. So such a call can reject with the chain-not-found
  error, with \<^verbatim>\<open>UserRejectedRequestError\<close> or with \<^verbatim>\<open>SwitchChainError\<close>, and can issue
  the chain-add and chain-switch RPC requests; each happens in a concrete environment.
  With the chain id zero the call is \<^verbatim>\<open>getProvider()\<close> itself, in every environment:
  \<^verbatim>\<open>if (chainId)\<close> is false and nothing is switched.
\<close>

theorem getProvider_switches_chain:
  "(window s = Some wo \<and> ronin wo = None \<and> c \<noteq> 0 \<longrightarrow>
      getProvider w (Some c) s =
        (case getProvider w None s of
           (Inl e, s1) \<Rightarrow> (Inl e, s1)
         | (Inr _, s1) \<Rightarrow>
             (case switchChain w c s1 of
                (Inl e, s2) \<Rightarrow> (Inl e, s2)
              | (Inr _, s2) \<Rightarrow>
                  (Inr (case provider s2 of None \<Rightarrow> NoProvider | Some _ \<Rightarrow> RelayProvider), s2))))
   \<and> getProvider w (Some 0) s = getProvider w None s
   \<and> (\<exists>w' s' c'. window s' = Some \<lparr>ronin = None\<rparr> \<and> c' \<noteq> 0
         \<and> fst (getProvider w' (Some c') s')
             = Inl (SwitchChainError (Error ''chain not found on connector.'')))
   \<and> (\<exists>w' s' c' e. window s' = Some \<lparr>ronin = None\<rparr> \<and> c' \<noteq> 0
         \<and> fst (getProvider w' (Some c') s') = Inl (UserRejectedRequestError e))
   \<and> (\<exists>w' s' c' e. window s' = Some \<lparr>ronin = None\<rparr> \<and> c' \<noteq> 0
         \<and> e \<noteq> Error ''chain not found on connector.''
         \<and> fst (getProvider w' (Some c') s') = Inl (SwitchChainError e))
   \<and> (\<exists>w' s' c' p hex. window s' = Some \<lparr>ronin = None\<rparr> \<and> c' \<noteq> 0
         \<and> trace (snd (getProvider w' (Some c') s'))
             = trace s' @ [Request RelayProvider (Wallet_addEthereumChain p),
                           Request RelayProvider (Wallet_switchEthereumChain hex)])"
proof (intro conjI)
  show "window s = Some wo \<and> ronin wo = None \<and> c \<noteq> 0 \<longrightarrow>
      getProvider w (Some c) s =
        (case getProvider w None s of
           (Inl e, s1) \<Rightarrow> (Inl e, s1)
         | (Inr _, s1) \<Rightarrow>
             (case switchChain w c s1 of
                (Inl e, s2) \<Rightarrow> (Inl e, s2)
              | (Inr _, s2) \<Rightarrow>
                  (Inr (case provider s2 of None \<Rightarrow> NoProvider | Some _ \<Rightarrow> RelayProvider), s2)))"
    using getProvider_chain_unfold [of s wo c w] by blast
  show "getProvider w (Some 0) s = getProvider w None s"
    by (simp add: getProvider_def getProvider_with_def io_when_def split: option.splits)
  show "\<exists>w' s' c'. window s' = Some \<lparr>ronin = None\<rparr> \<and> c' \<noteq> 0
         \<and> fst (getProvider w' (Some c') s')
             = Inl (SwitchChainError (Error ''chain not found on connector.''))"
    using getProvider_unknown_chain browser_window
    by (intro exI [of _ demo_world] exI [of _ browser_state] exI [of _ 1]) simp
  show "\<exists>w' s' c' e. window s' = Some \<lparr>ronin = None\<rparr> \<and> c' \<noteq> 0
         \<and> fst (getProvider w' (Some c') s') = Inl (UserRejectedRequestError e)"
    using getProvider_user_rejected browser_window
    by (intro exI [of _ declining_world] exI [of _ browser_state] exI [of _ 2020]
          exI [of _ "Error ''User rejected request''"]) simp
  show "\<exists>w' s' c' e. window s' = Some \<lparr>ronin = None\<rparr> \<and> c' \<noteq> 0
         \<and> e \<noteq> Error ''chain not found on connector.''
         \<and> fst (getProvider w' (Some c') s') = Inl (SwitchChainError e)"
    using getProvider_switch_failed browser_window
    by (intro exI [of _ rejecting_world] exI [of _ browser_state] exI [of _ 2020]
          exI [of _ "Error ''User rejected the request.''"]) simp
  show "\<exists>w' s' c' p hex. window s' = Some \<lparr>ronin = None\<rparr> \<and> c' \<noteq> 0
         \<and> trace (snd (getProvider w' (Some c') s'))
             = trace s' @ [Request RelayProvider (Wallet_addEthereumChain p),
                           Request RelayProvider (Wallet_switchEthereumChain hex)]"
    using getProvider_issues_requests
    by (intro exI [of _ session_world] exI [of _ session_state] exI [of _ 2020]
          exI [of _ "\<lparr>param_chainId = ''0x7e4'',
                blockExplorerUrls = [''https://app.roninchain.com/''],
                chainName = ''Ronin mainnet'',
                param_nativeCurrency = \<lparr>currency_name = ''RON'', symbol = ''RON'', decimals = 18\<rparr>,
                rpcUrls = [''https://api.roninchain.com/rpc'']\<rparr>"]
          exI [of _ "''0x7e4''"])
       (simp add: session_state_eq)
qed

theorem getProvider_switches_chain_witness:
  "window browser_state = Some \<lparr>ronin = None\<rparr>
   \<and> getProvider declining_world (Some 2020) browser_state =
       (Inl (UserRejectedRequestError (Error ''User rejected request'')),
        snd (switchChain declining_world 2020 (snd (getProvider declining_world None browser_state))))
   \<and> fst (getProvider declining_world None browser_state) = Inr RelayProvider
   \<and> fst (getProvider declining_world (Some 0) browser_state) = Inr RelayProvider"
proof -
  have g: "getProvider declining_world None browser_state =
     (Inr RelayProvider,
      browser_state\<lparr>provider := Some demo_relay, initProviderPromise := Some Fulfilled,
        trace := [DynamicImport,
                  EthereumProviderInit (provider_init_args demo_world 2020 [])]\<rparr>)"
    unfolding declining_world_def by (rule getProvider_browser)
  have u: "getProvider declining_world (Some 2020) browser_state =
        (case getProvider declining_world None browser_state of
           (Inl e, s1) \<Rightarrow> (Inl e, s1)
         | (Inr _, s1) \<Rightarrow>
             (case switchChain declining_world 2020 s1 of
                (Inl e, s2) \<Rightarrow> (Inl e, s2)
              | (Inr _, s2) \<Rightarrow>
                  (Inr (case provider s2 of None \<Rightarrow> NoProvider | Some _ \<Rightarrow> RelayProvider), s2)))"
    using getProvider_switches_chain
            [of browser_state "\<lparr>ronin = None\<rparr>" 2020 declining_world, THEN conjunct1]
      browser_window
    by simp
  have r: "fst (getProvider declining_world (Some 2020) browser_state)
             = Inl (UserRejectedRequestError (Error ''User rejected request''))"
    by (rule getProvider_user_rejected)
  obtain s2 where sw: "switchChain declining_world 2020
              (browser_state\<lparr>provider := Some demo_relay, initProviderPromise := Some Fulfilled,
                 trace := [DynamicImport,
                           EthereumProviderInit (provider_init_args demo_world 2020 [])]\<rparr>)
            = (Inl (UserRejectedRequestError (Error ''User rejected request'')), s2)"
    using r unfolding u g
    by (cases "switchChain declining_world 2020
              (browser_state\<lparr>provider := Some demo_relay, initProviderPromise := Some Fulfilled,
                 trace := [DynamicImport,
                           EthereumProviderInit (provider_init_args demo_world 2020 [])]\<rparr>)")
       (auto split: sum.splits)
  have z: "getProvider declining_world (Some 0) browser_state
             = getProvider declining_world None browser_state"
    using getProvider_switches_chain
            [of browser_state "\<lparr>ronin = None\<rparr>" 2020 declining_world,
             THEN conjunct2, THEN conjunct1] .
  show ?thesis
    unfolding z u g by (simp add: sw browser_window)
qed

text \<open>
  The claim as stated fails for the chain id zero: \<^verbatim>\<open>if (chainId)\<close> is false for it, and
  the call hands back the relay provider without invoking \<^verbatim>\<open>switchChain\<close>, which would have
  rejected, and without any RPC request.
\<close>

theorem getProvider_chain_zero_counterexample:
  "window browser_state = Some \<lparr>ronin = None\<rparr>
   \<and> getProvider demo_world (Some 0) browser_state = getProvider demo_world None browser_state
   \<and> fst (getProvider demo_world (Some 0) browser_state) = Inr RelayProvider
   \<and> fst (switchChain demo_world 0 (snd (getProvider demo_world None browser_state)))
       = Inl (SwitchChainError (Error ''chain not found on connector.''))"
proof -
  have g: "getProvider demo_world None browser_state =
     (Inr RelayProvider,
      browser_state\<lparr>provider := Some demo_relay, initProviderPromise := Some Fulfilled,
        trace := [DynamicImport,
                  EthereumProviderInit (provider_init_args demo_world 2020 [])]\<rparr>)"
    using getProvider_browser [of "rpc_wallet demo_world"] by simp
  have z: "getProvider demo_world (Some 0) browser_state = getProvider demo_world None browser_state"
    by (simp add: getProvider_def getProvider_with_def io_when_def split: option.splits)
  have s: "switchChain demo_world 0 s = (Inl (SwitchChainError (Error ''chain not found on connector.'')), s)"
    for s
    by (simp add: switchChain_def io_throw_def demo_world_def ronin_chain_def)
  show ?thesis
    unfolding z g by (simp add: s browser_window)
qed

subsection \<open>What getProvider re-detects\<close>

text \<open>
  In a browser, every call of \<^verbatim>\<open>getProvider\<close> probes \<^verbatim>\<open>window.ronin\<close> anew. When the object
  is present the injected provider is handed back, whatever the connector's flag was and
  whatever chain id was passed; the flag is set when the provider still lacked \<^verbatim>\<open>on\<close>, and
  nothing at all changes when it had it. When the object is absent, \<^verbatim>\<open>getProvider()\<close>
  clears the flag and never hands back the injected provider.
\<close>

theorem getProvider_redetects:
  assumes "window s = Some wo"
  shows "(case ronin wo of
            Some ro \<Rightarrow>
              fst (getProvider w cid s) = Inr InjectedProvider
              \<and> (if provider_on ro then snd (getProvider w cid s) = s
                  else isExtension (snd (getProvider w cid s)))
          | None \<Rightarrow>
              fst (getProvider w None s) \<noteq> Inr InjectedProvider
              \<and> \<not> isExtension (snd (getProvider w None s)))"
proof (cases "ronin wo")
  case (Some ro)
  then show ?thesis
    using assms by (simp add: getProvider_def getProvider_with_def)
next
  case None
  obtain r s1 where g: "getProvider w None s = (r, s1)"
    by (cases "getProvider w None s")
  have "r \<noteq> Inr InjectedProvider \<and> \<not> isExtension s1"
    using g assms None
    by (auto simp: acquire_defs io_defs Let_def
             split: option.splits if_splits list.splits sum.splits promise.splits)
  then show ?thesis
    using None g by simp
qed

theorem getProvider_redetects_witness:
  "window late_injected_state = Some \<lparr>ronin = Some \<lparr>provider_on = True, roninEvent = []\<rparr>\<rparr>
   \<and> fst (getProvider demo_world (Some 2020) late_injected_state) = Inr InjectedProvider
   \<and> snd (getProvider demo_world (Some 2020) late_injected_state) = late_injected_state
   \<and> window browser_state = Some \<lparr>ronin = None\<rparr>
   \<and> fst (getProvider demo_world None browser_state) \<noteq> Inr InjectedProvider
   \<and> \<not> isExtension (snd (getProvider demo_world None browser_state))"
proof -
  have a: "window late_injected_state = Some \<lparr>ronin = Some \<lparr>provider_on = True, roninEvent = []\<rparr>\<rparr>"
    by (simp add: late_injected_state_def)
  show ?thesis
    using getProvider_redetects [OF a, of demo_world "Some 2020"]
      getProvider_redetects [OF browser_window, of demo_world] a browser_window
    by simp
qed

subsection \<open>The transport flag after the extension appears\<close>

text \<open>
  C7 at its failing input. The connector was constructed before the extension was
  injected; now \<^verbatim>\<open>window.ronin\<close> is there and its provider has \<^verbatim>\<open>on\<close>. \<^verbatim>\<open>getProvider\<close>
  hands back the injected provider through its early return and leaves \<^verbatim>\<open>#isExtension\<close>
  false, so \<^verbatim>\<open>getAccount\<close> and \<^verbatim>\<open>connect\<close> treat the injected provider as a relay
  provider and fail without asking the wallet. Had the provider lacked \<^verbatim>\<open>on\<close>, the flag
  would have been set and \<^verbatim>\<open>getAccount\<close> would have asked the wallet.
\<close>

theorem getProvider_stale_transport_flag:
  "getProvider demo_world None late_injected_state = (Inr InjectedProvider, late_injected_state)
   \<and> \<not> isExtension late_injected_state
   \<and> getAccount demo_world late_injected_state
       = (Inl (TypeError ''Cannot read properties of undefined''), late_injected_state)
   \<and> fst (connect demo_world late_injected_state)
       = Inl (TypeError ''provider method is not a function'')
   \<and> getAccount demo_world
        (late_injected_state\<lparr>window := Some \<lparr>ronin = Some \<lparr>provider_on = False, roninEvent = []\<rparr>\<rparr>\<rparr>)
       = (Inr ''0xabc'',
          late_injected_state\<lparr>isExtension := True,
            trace := [DynamicImport, Request InjectedProvider Eth_accounts]\<rparr>)"
proof -
  have t: "\<not> regex_test_ci ''user rejected'' (Some ''provider method is not a function'')"
    by code_simp
  have 1: "getProvider demo_world None late_injected_state = (Inr InjectedProvider, late_injected_state)"
    by (simp add: acquire_defs io_defs late_injected_state_def browser_state_eq)
  have 2: "\<not> isExtension late_injected_state"
    by (simp add: late_injected_state_def browser_state_eq)
  have 3: "getAccount demo_world late_injected_state
       = (Inl (TypeError ''Cannot read properties of undefined''), late_injected_state)"
    unfolding getAccount_def io_bind_def 1
    using 2 by (simp add: relay_member_def io_defs)
  have 4: "fst (connect demo_world late_injected_state)
       = Inl (TypeError ''provider method is not a function'')"
    unfolding connect_def connect_body_def try_catch_def io_bind_def 1
    using 2
    by (simp add: setupListeners_def relay_member_def relay_call_def io_defs t
          late_injected_state_def browser_state_eq)
  have 5: "getAccount demo_world
        (late_injected_state\<lparr>window := Some \<lparr>ronin = Some \<lparr>provider_on = False, roninEvent = []\<rparr>\<rparr>\<rparr>)
       = (Inr ''0xabc'',
          late_injected_state\<lparr>isExtension := True,
            trace := [DynamicImport, Request InjectedProvider Eth_accounts]\<rparr>)"
    by (simp add: getAccount_def acquire_defs call_defs io_defs late_injected_state_def
          browser_state_eq demo_world_def)
  from 1 2 3 4 5 show ?thesis by simp
qed

end
